theory Spec2Isabelle
  imports Complex_Main
begin

section \<open>Errors and message formatting\<close>

text \<open>
  The Python code signals every failure of the core with a built-in exception carrying a
  message. The two that the core raises are \<^verbatim>\<open>ValueError\<close> (not enough data, model not
  trained, nothing to save) and \<^verbatim>\<open>TypeError\<close> (an operation applied to \<^verbatim>\<open>None\<close>). The
  database raises \<^verbatim>\<open>IntegrityError\<close> when a row would break a uniqueness constraint;
  its argument here is the column concerned, the wording of the driver is not modelled.
\<close>

datatype error = ValueError string | TypeError string | IntegrityError string

text \<open>\<^verbatim>\<open>str(e)\<close>: the message of an exception.\<close>

fun error_message :: "error \<Rightarrow> string" where
  "error_message (ValueError m) = m"
| "error_message (TypeError m) = m"
| "error_message (IntegrityError m) = m"

text \<open>Decimal rendering of a natural number, as \<^verbatim>\<open>f"{n}"\<close> does for a non-negative int.\<close>

fun show_nat :: "nat \<Rightarrow> string" where
  "show_nat n =
     (if n < 10 then [''0123456789'' ! n]
      else show_nat (n div 10) @ [''0123456789'' ! (n mod 10)])"

declare show_nat.simps [simp del]

section \<open>Preprocessor (\<^verbatim>\<open>ml_module/preprocessing.py\<close>)\<close>

text \<open>
  The window size is a number of readings, a natural number; sensor values are real
  numbers. The scaler of the preprocessor is not used by the operations below, only the
  flag that records whether it was fitted.
\<close>

record SensorDataPreprocessor =
  window_size :: nat
  is_fitted :: bool

text \<open>The Python slice \<^verbatim>\<open>xs[i:j]\<close> for non-negative bounds.\<close>

definition slice :: "'a list \<Rightarrow> nat \<Rightarrow> nat \<Rightarrow> 'a list" where
  "slice xs i j = take (j - i) (drop i xs)"

definition create_windows :: "SensorDataPreprocessor \<Rightarrow> 'a list \<Rightarrow> error + 'a list list" where
  "create_windows self values =
     (if length values < window_size self then
        Inl (ValueError (''Not enough data points. Need at least '' @ show_nat (window_size self)
                         @ '', got '' @ show_nat (length values)))
      else
        Inr (map (\<lambda>i. slice values i (i + window_size self))
                 [0 ..< length values - window_size self + 1]))"



text \<open>Python's \<^verbatim>\<open>max\<close> of a non-empty list; the caller has excluded the empty list.\<close>

fun max_list :: "real list \<Rightarrow> real" where
  "max_list [] = 0"
| "max_list (x # xs) = fold max xs x"


text \<open>
  \<^verbatim>\<open>calculate_features\<close>: mean, population standard deviation, minimum, maximum and
  range of a window, as numpy computes them. On an empty window \<^verbatim>\<open>np.min\<close> raises
  \<^verbatim>\<open>ValueError\<close>.
\<close>

definition np_mean :: "real list \<Rightarrow> real" where
  "np_mean xs = sum_list xs / real (length xs)"

definition np_std :: "real list \<Rightarrow> real" where
  "np_std xs = sqrt (sum_list (map (\<lambda>x. (x - np_mean xs)\<^sup>2) xs) / real (length xs))"

text \<open>\<^verbatim>\<open>np.min\<close> of a non-empty window; \<^verbatim>\<open>calculate_features\<close> excludes the empty one.\<close>

fun np_min :: "real list \<Rightarrow> real" where
  "np_min [] = 0"
| "np_min (x # xs) = fold min xs x"

definition calculate_features :: "real list \<Rightarrow> error + real list" where
  "calculate_features window =
     (if window = [] then
        Inl (ValueError ''zero-size array to reduction operation minimum which has no identity'')
      else Inr [np_mean window, np_std window, np_min window, max_list window,
                max_list window - np_min window])"

text \<open>A loop that appends the result of a call that may raise.\<close>

fun map_result :: "('a \<Rightarrow> error + 'b) \<Rightarrow> 'a list \<Rightarrow> error + 'b list" where
  "map_result f [] = Inr []"
| "map_result f (x # xs) =
     (case f x of
        Inl e \<Rightarrow> Inl e
      | Inr y \<Rightarrow> (case map_result f xs of Inl e \<Rightarrow> Inl e | Inr ys \<Rightarrow> Inr (y # ys)))"

definition prepare_for_model ::
    "SensorDataPreprocessor \<Rightarrow> real list \<Rightarrow> bool \<Rightarrow> error + real list list" where
  "prepare_for_model self values use_features =
     (case create_windows self values of
        Inl e \<Rightarrow> Inl e
      | Inr windows \<Rightarrow>
          if use_features then map_result calculate_features windows else Inr windows)"

section \<open>Novelty detector (\<^verbatim>\<open>ml_module/anomaly_detector.py\<close>)\<close>

text \<open>
  The scorer is scikit-learn's \<^verbatim>\<open>IsolationForest\<close>, a library outside the repository. Its
  \<^verbatim>\<open>predict\<close> and \<^verbatim>\<open>score_samples\<close> work row by row on the data matrix, so the fitted
  scorer is represented by the two functions it computes on one row: the label (1 normal,
  -1 anomaly) and the score. Scores are real numbers here.
\<close>

record IsolationForest =
  predict_row :: "real list \<Rightarrow> int"
  score_row :: "real list \<Rightarrow> real"

record IsolationForestDetector =
  model :: IsolationForest
  is_trained :: bool
  training_data_size :: nat
  training_date :: "nat option"

text \<open>The constructor \<^verbatim>\<open>__init__\<close>: an untrained detector around a fresh scorer.\<close>

definition init_detector :: "IsolationForest \<Rightarrow> IsolationForestDetector" where
  "init_detector m =
     \<lparr>model = m, is_trained = False, training_data_size = 0, training_date = None\<rparr>"

definition predict :: "IsolationForestDetector \<Rightarrow> real list list \<Rightarrow> error + int list" where
  "predict self data =
     (if \<not> is_trained self then Inl (ValueError ''Model not trained yet! Call train() first.'')
      else Inr (map (predict_row (model self)) data))"

definition get_anomaly_scores :: "IsolationForestDetector \<Rightarrow> real list list \<Rightarrow> error + real list" where
  "get_anomaly_scores self data =
     (if \<not> is_trained self then Inl (ValueError ''Model not trained yet! Call train() first.'')
      else Inr (map (score_row (model self)) data))"

definition calculate_severity :: "real \<Rightarrow> bool \<Rightarrow> string" where
  "calculate_severity score is_anomaly =
     (if \<not> is_anomaly then ''NORMAL''
      else if score < - 0.4 then ''CRITICAL''
      else if score < - 0.3 then ''HIGH''
      else if score < - 0.2 then ''MEDIUM''
      else ''LOW'')"

text \<open>One entry of the list returned by \<^verbatim>\<open>detect_with_confidence\<close> (a dict in the source).\<close>

record detection =
  index :: nat
  is_anomaly :: bool
  anomaly_score :: real
  confidence :: real
  severity :: string

text \<open>The body of the loop over \<^verbatim>\<open>enumerate(zip(raw_predictions, scores))\<close>.\<close>

definition detect_row :: "real \<Rightarrow> nat \<times> int \<times> real \<Rightarrow> detection" where
  "detect_row min_confidence entry =
     (case entry of (i, pred, score) \<Rightarrow>
        let is_anomaly_iforest = (pred = - 1);
            confidence = (if is_anomaly_iforest then min 1 (\<bar>score\<bar> / 0.5)
                          else if score > 0 then min 1 (score / 0.5) else 0);
            is_anomaly = (is_anomaly_iforest \<and> confidence \<ge> min_confidence)
        in \<lparr>index = i, is_anomaly = is_anomaly, anomaly_score = score,
            confidence = confidence, severity = calculate_severity score is_anomaly\<rparr>)"

definition detect_with_confidence ::
    "IsolationForestDetector \<Rightarrow> real list list \<Rightarrow> real \<Rightarrow> error + detection list" where
  "detect_with_confidence self data min_confidence =
     (if \<not> is_trained self then Inl (ValueError ''Model not trained yet! Call train() first.'')
      else case predict self data of
        Inl e \<Rightarrow> Inl e
      | Inr raw_predictions \<Rightarrow>
          (case get_anomaly_scores self data of
             Inl e \<Rightarrow> Inl e
           | Inr scores \<Rightarrow>
               Inr (map (detect_row min_confidence) (enumerate 0 (zip raw_predictions scores)))))"

text \<open>The default of the parameter \<^verbatim>\<open>min_confidence\<close>.\<close>

definition default_min_confidence :: real where
  "default_min_confidence = 0.999"

text \<open>
  \<^verbatim>\<open>save_model\<close> pickles the scorer and the three attributes into the file at
  \<^verbatim>\<open>filepath\<close>; the file system is a map from paths to the saved data.
\<close>

definition save_model ::
    "IsolationForestDetector \<Rightarrow> string \<Rightarrow> (string \<rightharpoonup> IsolationForestDetector)
     \<Rightarrow> error + (string \<rightharpoonup> IsolationForestDetector)" where
  "save_model self filepath fs =
     (if \<not> is_trained self then Inl (ValueError ''Cannot save untrained model'')
      else Inr (fs(filepath \<mapsto>
             \<lparr>model = model self, is_trained = is_trained self,
              training_data_size = training_data_size self,
              training_date = training_date self\<rparr>)))"

section \<open>Stored entities\<close>

text \<open>
  Modelled from the spec: \<^verbatim>\<open>crop_app/models.py\<close>, which declares the Django models
  \<^verbatim>\<open>SensorReading\<close>, \<^verbatim>\<open>AnomalyEvent\<close> and \<^verbatim>\<open>AgentRecommendation\<close>, is not among the
  sources. The records below carry the fields that the code under study reads and writes
  (the keyword arguments of \<^verbatim>\<open>objects.create\<close>, the attributes used by the rule engine
  and the serializers), with the primary key first; a foreign key is the key of the row it
  points to, timestamps are points on a discrete time line. Following section 3 of the
  specification, the triggering reading of an anomaly is nullable and a recommendation
  belongs to exactly one anomaly (a one-to-one relation whose reverse accessor on the
  anomaly is \<^verbatim>\<open>recommendation\<close>).
\<close>

record SensorReading =
  reading_id :: nat
  plot :: nat
  sensor_type :: string
  "value" :: real
  timestamp :: nat

record AnomalyEvent =
  event_id :: nat
  plot :: nat
  sensor_reading :: "nat option"
  anomaly_type :: string
  severity :: string
  model_confidence :: real
  timestamp :: nat

section \<open>Rule engine (\<^verbatim>\<open>ai_agent/rule_engine.py\<close>)\<close>

subsection \<open>Texts with formatted values\<close>

text \<open>
  The explanation is assembled from f-strings. A text is kept as the list of its pieces:
  literal text, a character outside ASCII given by its code point, a number under one of
  the format specifications used (\<^verbatim>\<open>.1f\<close>, \<^verbatim>\<open>.2f\<close>, \<^verbatim>\<open>+.1f\<close>), and a time under a
  \<^verbatim>\<open>strftime\<close> pattern. The digits a format specification prints are not computed.
\<close>

datatype piece =
    Txt string
  | Uni nat
  | Fix1 real
  | Fix2 real
  | SignedFix1 real
  | Strftime string nat

text \<open>
  \<^verbatim>\<open>f"{x:.1f}"\<close> where \<^verbatim>\<open>x\<close> may be \<^verbatim>\<open>None\<close>: formatting \<^verbatim>\<open>None\<close> with a format
  specification raises \<^verbatim>\<open>TypeError\<close>.
\<close>

definition format_1f :: "real option \<Rightarrow> error + piece" where
  "format_1f x =
     (case x of
        None \<Rightarrow> Inl (TypeError ''unsupported format string passed to NoneType.__format__'')
      | Some v \<Rightarrow> Inr (Fix1 v))"

text \<open>\<^verbatim>\<open>x and p(x)\<close> for an optional number: \<^verbatim>\<open>None\<close> and 0 are falsy.\<close>

definition truthy_and :: "real option \<Rightarrow> (real \<Rightarrow> bool) \<Rightarrow> bool" where
  "truthy_and x p = (case x of None \<Rightarrow> False | Some v \<Rightarrow> v \<noteq> 0 \<and> p v)"

subsection \<open>Strings: \<^verbatim>\<open>lower\<close> and \<^verbatim>\<open>in\<close>\<close>

definition lower_table :: "(char \<times> char) list" where
  "lower_table = zip
     (''ABCDEFGHIJKLMNOPQRSTUVWXYZ'' @
      [CHR 0xC0, CHR 0xC1, CHR 0xC2, CHR 0xC3, CHR 0xC4, CHR 0xC5, CHR 0xC6, CHR 0xC7,
       CHR 0xC8, CHR 0xC9, CHR 0xCA, CHR 0xCB, CHR 0xCC, CHR 0xCD, CHR 0xCE, CHR 0xCF,
       CHR 0xD0, CHR 0xD1, CHR 0xD2, CHR 0xD3, CHR 0xD4, CHR 0xD5, CHR 0xD6,
       CHR 0xD8, CHR 0xD9, CHR 0xDA, CHR 0xDB, CHR 0xDC, CHR 0xDD, CHR 0xDE])
     (''abcdefghijklmnopqrstuvwxyz'' @
      [CHR 0xE0, CHR 0xE1, CHR 0xE2, CHR 0xE3, CHR 0xE4, CHR 0xE5, CHR 0xE6, CHR 0xE7,
       CHR 0xE8, CHR 0xE9, CHR 0xEA, CHR 0xEB, CHR 0xEC, CHR 0xED, CHR 0xEE, CHR 0xEF,
       CHR 0xF0, CHR 0xF1, CHR 0xF2, CHR 0xF3, CHR 0xF4, CHR 0xF5, CHR 0xF6,
       CHR 0xF8, CHR 0xF9, CHR 0xFA, CHR 0xFB, CHR 0xFC, CHR 0xFD, CHR 0xFE])"

definition lower_char :: "char \<Rightarrow> char" where
  "lower_char c = (case map_of lower_table c of Some d \<Rightarrow> d | None \<Rightarrow> c)"

definition lower :: "string \<Rightarrow> string" where
  "lower s = map lower_char s"

fun starts_with :: "string \<Rightarrow> string \<Rightarrow> bool" where
  "starts_with s [] = True"
| "starts_with [] (c # cs) = False"
| "starts_with (x # xs) (c # cs) = (x = c \<and> starts_with xs cs)"

text \<open>\<^verbatim>\<open>sub in s\<close>.\<close>

fun contains :: "string \<Rightarrow> string \<Rightarrow> bool" where
  "contains [] sub = (sub = [])"
| "contains (x # xs) sub = (starts_with (x # xs) sub \<or> contains xs sub)"

subsection \<open>Thresholds, context and result\<close>

text \<open>The tables \<^verbatim>\<open>normal_ranges\<close> and \<^verbatim>\<open>critical_thresholds\<close> set by \<^verbatim>\<open>__init__\<close>.\<close>

definition normal_ranges_moisture_min :: nat where "normal_ranges_moisture_min = 45"
definition normal_ranges_moisture_max :: nat where "normal_ranges_moisture_max = 75"
definition normal_ranges_temperature_min :: nat where "normal_ranges_temperature_min = 18"
definition normal_ranges_temperature_max :: nat where "normal_ranges_temperature_max = 28"
definition normal_ranges_humidity_min :: nat where "normal_ranges_humidity_min = 45"
definition normal_ranges_humidity_max :: nat where "normal_ranges_humidity_max = 75"

definition critical_low_moisture :: nat where "critical_low_moisture = 35"
definition critical_high_moisture :: nat where "critical_high_moisture = 80"
definition critical_low_temperature :: nat where "critical_low_temperature = 10"
definition critical_high_temperature :: nat where "critical_high_temperature = 32"
definition critical_low_humidity :: nat where "critical_low_humidity = 30"
definition critical_high_humidity :: nat where "critical_high_humidity = 85"

text \<open>
  The dict built by \<^verbatim>\<open>_get_reading_context\<close>: every key is always present, with
  \<^verbatim>\<open>None\<close> for what could not be computed.
\<close>

record reading_context =
  recent_value :: "real option"
  change_rate :: "real option"
  trend :: string
  multiple_anomalies :: bool
  sensor_type :: "string option"
  historical_avg :: "real option"
  time_of_day :: "piece option"

text \<open>The dict returned by the analysis.\<close>

record analysis =
  recommended_action :: string
  explanation_text :: "piece list"
  confidence :: real
  priority :: string

subsection \<open>Helper methods\<close>

text \<open>
  Python's \<^verbatim>\<open>round(x, ndigits)\<close> on real numbers: to the nearest multiple of
  \<open>10 ^ (- ndigits)\<close>, a tie going to the even one.
\<close>

definition py_round :: "real \<Rightarrow> nat \<Rightarrow> real" where
  "py_round x ndigits =
     (let y = x * 10 ^ ndigits; f = \<lfloor>y\<rfloor>; d = y - of_int f
      in (if d < 1 / 2 then of_int f
          else if d > 1 / 2 then of_int (f + 1)
          else if even f then of_int f else of_int (f + 1)) / 10 ^ ndigits)"

definition calculate_confidence :: "real \<Rightarrow> real \<Rightarrow> real" where
  "calculate_confidence model_conf rate =
     py_round (if \<bar>rate\<bar> > 20 then min (model_conf + 0.2) 1
               else if \<bar>rate\<bar> > 15 then min (model_conf + 0.15) 1
               else if \<bar>rate\<bar> > 10 then min (model_conf + 0.1) 1
               else model_conf) 2"

definition trend_desc :: "string \<Rightarrow> string" where
  "trend_desc t =
     (if t = ''increasing'' then ''Values are rising''
      else if t = ''decreasing'' then ''Values are declining''
      else if t = ''fluctuating'' then ''Values are unstable''
      else t)"

definition build_explanation :: "AnomalyEvent \<Rightarrow> reading_context \<Rightarrow> piece list \<Rightarrow> piece list" where
  "build_explanation anomaly ctx detail =
     [Txt ''On '', Strftime ''%Y-%m-%d at %H:%M'' (AnomalyEvent.timestamp anomaly), Txt '', '',
      Txt (case reading_context.sensor_type ctx of None \<Rightarrow> ''None'' | Some s \<Rightarrow> s),
      Txt '' readings detected a '', Txt (anomaly_type anomaly),
      Txt '' (ML model confidence: '', Fix2 (model_confidence anomaly),
      Txt '', severity: '', Txt (AnomalyEvent.severity anomaly), Txt ''). '']
     @ detail
     @ (if trend ctx \<noteq> [] \<and> trend ctx \<noteq> ''unknown''
        then [Txt '' Trend: '', Txt (trend_desc (trend ctx)), Txt ''.''] else [])
     @ (case change_rate ctx of
          None \<Rightarrow> []
        | Some c \<Rightarrow> if c \<noteq> 0 \<and> \<bar>c\<bar> > 5
                    then [Txt '' Change rate: '', SignedFix1 c, Txt ''%.''] else [])
     @ (if multiple_anomalies ctx
        then [Txt '' '', Uni 0x26A0, Uni 0xFE0F,
              Txt '' Multiple anomalies detected - investigate for combined stress factors.'']
        else [])"

subsection \<open>Moisture rules\<close>

text \<open>The message of the \<^verbatim>\<open>TypeError\<close> raised by comparing \<^verbatim>\<open>None\<close> with an int.\<close>

definition not_supported_between :: "string \<Rightarrow> string" where
  "not_supported_between opr =
     [CHR 0x27] @ opr @ [CHR 0x27] @ '' not supported between instances of '' @
     [CHR 0x27] @ ''NoneType'' @ [CHR 0x27] @ '' and '' @ [CHR 0x27] @ ''int'' @ [CHR 0x27]"

text \<open>
  \<^verbatim>\<open>change_rate = context.get('change_rate', 0)\<close> is \<^verbatim>\<open>None\<close> when the context holds
  \<^verbatim>\<open>None\<close> under that key, and comparing \<^verbatim>\<open>None\<close> with a number raises \<^verbatim>\<open>TypeError\<close>;
  the first comparison of \<^verbatim>\<open>change_rate\<close> is where that happens.
\<close>

definition analyze_moisture_anomaly :: "AnomalyEvent \<Rightarrow> reading_context \<Rightarrow> error + analysis" where
  "analyze_moisture_anomaly anomaly ctx =
     (case recent_value ctx of
        None \<Rightarrow>
          Inr \<lparr>recommended_action = ''Investigate moisture sensor - no recent data available'',
               explanation_text = build_explanation anomaly ctx
                 [Txt (''Moisture anomaly detected but sensor reading data is unavailable. '' @
                       ''Check sensor connectivity and verify data collection.'')],
               confidence = model_confidence anomaly * 0.5,
               priority = ''medium''\<rparr>
      | Some rv \<Rightarrow>
          if rv < real critical_low_moisture then
            Inr \<lparr>recommended_action =
                   ''URGENT: Immediate irrigation required - crops under severe drought stress'',
                 explanation_text = build_explanation anomaly ctx
                   [Txt ''Soil moisture critically low at '', Fix1 rv,
                    Txt ''% (normal range: '', Txt (show_nat normal_ranges_moisture_min),
                    Txt ''-'', Txt (show_nat normal_ranges_moisture_max),
                    Txt (''%). Crops are experiencing severe drought stress '' @
                         ''and may suffer permanent damage.'')],
                 confidence = min (model_confidence anomaly + 0.15) 1,
                 priority = ''high''\<rparr>
          else
            (case change_rate ctx of
               None \<Rightarrow>
                 Inl (TypeError (not_supported_between ''<''))
             | Some cr \<Rightarrow>
                 if cr < - 10 then
                   Inr \<lparr>recommended_action =
                          ''Check irrigation system immediately - possible failure or leak detected'',
                        explanation_text = build_explanation anomaly ctx
                          [Txt ''Soil moisture dropped '', Fix1 \<bar>cr\<bar>,
                           Txt (''% rapidly. This sudden decline indicates possible irrigation '' @
                                ''system failure, pipe leak, or pump malfunction. '' @
                                ''Current moisture level: ''),
                           Fix1 rv, Txt ''%.''],
                        confidence = calculate_confidence (model_confidence anomaly) cr,
                        priority = (if AnomalyEvent.severity anomaly = ''high''
                                    then ''high'' else ''medium'')\<rparr>
                 else if trend ctx = ''decreasing'' \<and> cr < - 5 then
                   Inr \<lparr>recommended_action =
                          ''Adjust irrigation schedule - gradual moisture loss detected'',
                        explanation_text = build_explanation anomaly ctx
                          [Txt ''Gradual moisture decline detected ('', Fix1 cr,
                           Txt ''% change over recent period). Current level: '', Fix1 rv,
                           Txt ''%. Consider increasing irrigation frequency or duration.''],
                        confidence = model_confidence anomaly,
                        priority = ''medium''\<rparr>
                 else if rv > real critical_high_moisture then
                   Inr \<lparr>recommended_action =
                          ''Reduce irrigation immediately - overwatering detected'',
                        explanation_text = build_explanation anomaly ctx
                          [Txt ''Soil moisture excessive at '', Fix1 rv, Txt ''% (above '',
                           Txt (show_nat critical_high_moisture),
                           Txt (''%). Risk of root rot, fungal diseases, and oxygen deprivation. '' @
                                ''Reduce watering and improve drainage.'')],
                        confidence = model_confidence anomaly,
                        priority = ''medium''\<rparr>
                 else if AnomalyEvent.severity anomaly = ''medium'' then
                   Inr \<lparr>recommended_action =
                          ''Monitor moisture levels closely and prepare irrigation adjustments'',
                        explanation_text = build_explanation anomaly ctx
                          [Txt ''Moisture anomaly detected with medium severity. Current level: '',
                           Fix1 rv,
                           Txt (''%. Monitor situation and be ready to adjust irrigation '' @
                                ''if condition worsens.'')],
                        confidence = model_confidence anomaly,
                        priority = ''medium''\<rparr>
                 else
                   Inr \<lparr>recommended_action = ''Monitor soil moisture levels'',
                        explanation_text = build_explanation anomaly ctx
                          [Txt ''Moisture anomaly detected. Current level: '', Fix1 rv,
                           Txt ''%. Continue monitoring for changes.''],
                        confidence = model_confidence anomaly * 0.8,
                        priority = ''low''\<rparr>))"

subsection \<open>Temperature rules\<close>

definition heat_stress_explanation :: "real \<Rightarrow> reading_context \<Rightarrow> piece list" where
  "heat_stress_explanation rv ctx =
     [Txt ''Extreme temperature detected at '', Fix1 rv, Uni 0xB0,
      Txt ''C (normal range: '', Txt (show_nat normal_ranges_temperature_min), Txt ''-'',
      Txt (show_nat normal_ranges_temperature_max), Uni 0xB0, Txt ''C). '']
     @ (case historical_avg ctx of
          None \<Rightarrow> []
        | Some h \<Rightarrow> if h \<noteq> 0
                    then [Txt ''This is '', Fix1 (rv - h), Uni 0xB0,
                          Txt ''C above recent average ('', Fix1 h, Uni 0xB0, Txt ''C). '']
                    else [])
     @ (if trend ctx = ''increasing''
        then [Txt ''Temperature continues to rise, worsening heat stress conditions. '']
        else [])
     @ [Txt (''Crops at high risk of heat stress, wilting, and reduced yields. '' @
             ''Immediate action required to prevent permanent damage.'')]"

definition analyze_temperature_anomaly :: "AnomalyEvent \<Rightarrow> reading_context \<Rightarrow> error + analysis" where
  "analyze_temperature_anomaly anomaly ctx =
     (case recent_value ctx of
        None \<Rightarrow>
          Inr \<lparr>recommended_action = ''Investigate temperature sensor - no recent data available'',
               explanation_text = build_explanation anomaly ctx
                 [Txt (''Temperature anomaly detected but sensor reading data is unavailable. '' @
                       ''Check sensor connectivity and verify data collection.'')],
               confidence = model_confidence anomaly * 0.5,
               priority = ''medium''\<rparr>
      | Some rv \<Rightarrow>
          if rv > real critical_high_temperature then
            Inr \<lparr>recommended_action =
                   ''URGENT: Heat stress mitigation - increase irrigation immediately and provide shade'',
                 explanation_text = build_explanation anomaly ctx (heat_stress_explanation rv ctx),
                 confidence = min (model_confidence anomaly + 0.15) 1,
                 priority = ''high''\<rparr>
          else if rv \<noteq> 0 \<and> rv < real critical_low_temperature then
            Inr \<lparr>recommended_action = ''URGENT: Cold protection required - risk of frost damage'',
                 explanation_text = build_explanation anomaly ctx
                   [Txt ''Low temperature detected at '', Fix1 rv, Uni 0xB0,
                    Txt (''C. Risk of cold stress, frost damage, and potential crop loss. '' @
                         ''Consider protective measures such as row covers, heaters, '' @
                         ''or frost protection sprinklers.'')],
                 confidence = min (model_confidence anomaly + 0.15) 1,
                 priority = ''high''\<rparr>
          else
            (case change_rate ctx of
               None \<Rightarrow>
                 Inl (TypeError (not_supported_between ''>''))
             | Some cr \<Rightarrow>
                 if cr > 15 then
                   Inr \<lparr>recommended_action =
                          ''Monitor crops closely - sudden temperature increase detected'',
                        explanation_text = build_explanation anomaly ctx
                          [Txt ''Sudden temperature increase of '', Fix1 cr, Uni 0xB0,
                           Txt ''C detected. Current temperature: '', Fix1 rv, Uni 0xB0,
                           Txt ''C. Monitor crop response and increase irrigation if needed.''],
                        confidence = model_confidence anomaly,
                        priority = (if AnomalyEvent.severity anomaly = ''high''
                                    then ''high'' else ''medium'')\<rparr>
                 else if cr < - 15 then
                   Inr \<lparr>recommended_action =
                          ''Monitor for cold stress - sudden temperature drop detected'',
                        explanation_text = build_explanation anomaly ctx
                          [Txt ''Sudden temperature decrease of '', Fix1 \<bar>cr\<bar>, Uni 0xB0,
                           Txt ''C detected. Current temperature: '', Fix1 rv, Uni 0xB0,
                           Txt ''C. Monitor for signs of cold stress.''],
                        confidence = model_confidence anomaly,
                        priority = ''medium''\<rparr>
                 else if AnomalyEvent.severity anomaly = ''medium'' then
                   Inr \<lparr>recommended_action = ''Monitor temperature trends and crop response'',
                        explanation_text = build_explanation anomaly ctx
                          [Txt ''Temperature anomaly detected at '', Fix1 rv, Uni 0xB0,
                           Txt ''C. Continue monitoring for sustained deviations.''],
                        confidence = model_confidence anomaly,
                        priority = ''medium''\<rparr>
                 else
                   Inr \<lparr>recommended_action = ''Monitor temperature levels'',
                        explanation_text = build_explanation anomaly ctx
                          [Txt ''Temperature anomaly detected at '', Fix1 rv, Uni 0xB0,
                           Txt ''C. Continue routine monitoring.''],
                        confidence = model_confidence anomaly * 0.8,
                        priority = ''low''\<rparr>))"

subsection \<open>Humidity rules\<close>

text \<open>
  There is no check for a missing value here. The first two rules are guarded by
  \<^verbatim>\<open>recent_value and ...\<close>; the last two format \<^verbatim>\<open>recent_value\<close> unguarded.
\<close>

definition analyze_humidity_anomaly :: "AnomalyEvent \<Rightarrow> reading_context \<Rightarrow> error + analysis" where
  "analyze_humidity_anomaly anomaly ctx =
     (if truthy_and (recent_value ctx) (\<lambda>v. v < real critical_low_humidity) then
        (case format_1f (recent_value ctx) of
           Inl e \<Rightarrow> Inl e
         | Inr shown \<Rightarrow>
             Inr \<lparr>recommended_action =
                    ''Increase humidity or irrigation - risk of plant stress from dry air'',
                  explanation_text = build_explanation anomaly ctx
                    [Txt ''Very low humidity at '', shown, Txt ''% (normal range: '',
                     Txt (show_nat normal_ranges_humidity_min), Txt ''-'',
                     Txt (show_nat normal_ranges_humidity_max),
                     Txt (''%). Dry conditions may cause increased transpiration, water stress, '' @
                          ''and leaf damage. Consider misting or increasing irrigation.'')],
                  confidence = model_confidence anomaly,
                  priority = (if AnomalyEvent.severity anomaly = ''high''
                              then ''high'' else ''medium'')\<rparr>)
      else if truthy_and (recent_value ctx) (\<lambda>v. v > real critical_high_humidity) then
        (case format_1f (recent_value ctx) of
           Inl e \<Rightarrow> Inl e
         | Inr shown \<Rightarrow>
             Inr \<lparr>recommended_action =
                    ''Improve ventilation urgently - high humidity increases disease risk'',
                  explanation_text = build_explanation anomaly ctx
                    [Txt ''High humidity at '', shown, Txt ''% (above '',
                     Txt (show_nat critical_high_humidity),
                     Txt (''%). Elevated risk of fungal diseases, mold, and bacterial infections. '' @
                          ''Improve air circulation, reduce watering frequency if possible, '' @
                          ''and monitor for disease symptoms.'')],
                  confidence = model_confidence anomaly,
                  priority = (if AnomalyEvent.severity anomaly = ''high''
                              then ''high'' else ''medium'')\<rparr>)
      else if AnomalyEvent.severity anomaly = ''medium'' then
        (case format_1f (recent_value ctx) of
           Inl e \<Rightarrow> Inl e
         | Inr shown \<Rightarrow>
             Inr \<lparr>recommended_action = ''Monitor humidity levels and ventilation'',
                  explanation_text = build_explanation anomaly ctx
                    [Txt ''Humidity anomaly detected at '', shown,
                     Txt ''%. Monitor for changes and ensure adequate ventilation.''],
                  confidence = model_confidence anomaly,
                  priority = ''medium''\<rparr>)
      else
        (case format_1f (recent_value ctx) of
           Inl e \<Rightarrow> Inl e
         | Inr shown \<Rightarrow>
             Inr \<lparr>recommended_action = ''Monitor humidity levels'',
                  explanation_text = build_explanation anomaly ctx
                    [Txt ''Humidity anomaly detected at '', shown,
                     Txt ''%. Continue routine monitoring.''],
                  confidence = model_confidence anomaly * 0.8,
                  priority = ''low''\<rparr>))"

subsection \<open>Generic rules and dispatch\<close>

definition analyze_generic_anomaly :: "AnomalyEvent \<Rightarrow> reading_context \<Rightarrow> error + analysis" where
  "analyze_generic_anomaly anomaly ctx =
     (if multiple_anomalies ctx then
        Inr \<lparr>recommended_action =
               ''URGENT: Comprehensive plot inspection - multiple stress factors detected'',
             explanation_text = build_explanation anomaly ctx
               [Txt (''Multiple anomalies detected in short timeframe. '' @
                     ''This indicates combined stress factors affecting the plot. '' @
                     ''Conduct thorough inspection of irrigation, environmental conditions, '' @
                     ''and crop health.'')],
             confidence = model_confidence anomaly * 0.9,
             priority = ''high''\<rparr>
      else if model_confidence anomaly < 0.6 then
        Inr \<lparr>recommended_action =
               ''Verify with manual inspection - anomaly detected with moderate confidence'',
             explanation_text = build_explanation anomaly ctx
               [Txt ''Anomaly detected with moderate confidence ('',
                Fix2 (model_confidence anomaly),
                Txt (''). Manual inspection recommended to confirm sensor readings '' @
                     ''and identify any issues.'')],
             confidence = model_confidence anomaly,
             priority = ''low''\<rparr>
      else if AnomalyEvent.severity anomaly = ''high'' then
        Inr \<lparr>recommended_action = ''Investigate anomaly urgently - high severity detected'',
             explanation_text = build_explanation anomaly ctx
               [Txt ''High severity anomaly detected. Immediate investigation recommended.''],
             confidence = model_confidence anomaly,
             priority = ''high''\<rparr>
      else
        Inr \<lparr>recommended_action = ''Investigate anomaly condition'',
             explanation_text = build_explanation anomaly ctx
               [Txt (''Anomaly detected in sensor data. '' @
                     ''Further investigation recommended to identify cause.'')],
             confidence = model_confidence anomaly,
             priority = (if AnomalyEvent.severity anomaly = ''medium''
                         then ''medium'' else ''low'')\<rparr>)"

text \<open>
  \<^verbatim>\<open>analyze_anomaly\<close> first builds the context with \<^verbatim>\<open>_get_reading_context\<close>, which
  queries the store and never raises, and then dispatches on the anomaly type. The
  context is the argument \<open>ctx\<close> here.
\<close>

definition analyze_anomaly :: "reading_context \<Rightarrow> AnomalyEvent \<Rightarrow> error + analysis" where
  "analyze_anomaly ctx anomaly_event =
     (if contains (lower (anomaly_type anomaly_event)) ''moisture'' then
        analyze_moisture_anomaly anomaly_event ctx
      else if contains (lower (anomaly_type anomaly_event)) ''temperature'' then
        analyze_temperature_anomaly anomaly_event ctx
      else if contains (lower (anomaly_type anomaly_event)) ''humidity'' then
        analyze_humidity_anomaly anomaly_event ctx
      else
        analyze_generic_anomaly anomaly_event ctx)"

section \<open>The store, the context and the agent service\<close>

text \<open>
  Modelled from the spec: the model \<^verbatim>\<open>AgentRecommendation\<close> of \<^verbatim>\<open>crop_app/models.py\<close>,
  with the fields listed by its serializer. \<^verbatim>\<open>anomaly_event\<close> is the key of the anomaly
  the recommendation belongs to; the relation is one-to-one (the code reads a single
  object through the reverse accessor \<^verbatim>\<open>recommendation\<close> and filters on
  \<^verbatim>\<open>recommendation__isnull\<close>), so the column is unique. The record is the Python object:
  its key and its timestamp are \<^verbatim>\<open>None\<close> until the row has been saved.
\<close>

record AgentRecommendation =
  rec_id :: "nat option"
  anomaly_event :: nat
  recommended_action :: string
  explanation_text :: "piece list"
  confidence :: real
  timestamp :: "nat option"

text \<open>
  The database: one list of rows per table, in insertion order, the keys of the field
  plots, and the current time, which stamps the rows that are created.
\<close>

record store =
  field_plots :: "nat list"
  sensor_readings :: "SensorReading list"
  anomaly_events :: "AnomalyEvent list"
  agent_recommendations :: "AgentRecommendation list"
  clock :: nat

text \<open>The next value of an auto-incremented primary key.\<close>

definition fresh_id :: "nat list \<Rightarrow> nat" where
  "fresh_id ids = Suc (fold max ids 0)"

text \<open>
  The query \<^verbatim>\<open>filter(...).order_by('-timestamp')[:count]\<close> on the readings: the rows
  that satisfy the filter, newest first, at most \<open>count\<close> of them.
\<close>

definition newest_first :: "(SensorReading \<Rightarrow> bool) \<Rightarrow> nat \<Rightarrow> SensorReading list \<Rightarrow> SensorReading list" where
  "newest_first keep count rows = take count (rev (sort_key SensorReading.timestamp (filter keep rows)))"

subsection \<open>Context of an anomaly (\<^verbatim>\<open>_get_reading_context\<close>)\<close>

definition calculate_change_rate :: "real list \<Rightarrow> real" where
  "calculate_change_rate values =
     (if length values < 2 then 0
      else py_round (if last values \<noteq> 0
                     then ((values ! 0 - last values) / last values) * 100 else 0) 2)"

definition determine_trend :: "real list \<Rightarrow> string" where
  "determine_trend values =
     (if length values < 3 then ''unknown''
      else let increases = length (filter (\<lambda>i. values ! i > values ! (i + 1))
                                          [0 ..< length values - 1]);
               decreases = length (filter (\<lambda>i. values ! i < values ! (i + 1))
                                          [0 ..< length values - 1]);
               total = length values - 1
           in if real increases > real total * 0.7 then ''increasing''
              else if real decreases > real total * 0.7 then ''decreasing''
              else ''fluctuating'')"

definition three_hours :: nat where
  "three_hours = 3 * 60 * 60"

text \<open>The last step of the \<^verbatim>\<open>try\<close> block: counting the anomalies of the plot in the last 3 hours.\<close>

definition check_multiple_anomalies :: "store \<Rightarrow> AnomalyEvent \<Rightarrow> reading_context \<Rightarrow> reading_context" where
  "check_multiple_anomalies st ev ctx =
     ctx\<lparr>multiple_anomalies :=
           length (filter (\<lambda>e. AnomalyEvent.plot e = AnomalyEvent.plot ev \<and>
                               AnomalyEvent.timestamp e + three_hours
                                 \<ge> AnomalyEvent.timestamp ev)
                          (anomaly_events st)) > 2\<rparr>"

text \<open>
  Any exception inside the \<^verbatim>\<open>try\<close> block is caught and the context built so far is
  returned. The one that the store can cause is a triggering reading that no longer
  exists; it is raised before anything was written into the context.
\<close>

definition get_reading_context :: "store \<Rightarrow> AnomalyEvent \<Rightarrow> reading_context" where
  "get_reading_context st ev =
     (let ctx = \<lparr>recent_value = None, change_rate = None, trend = ''unknown'',
                 multiple_anomalies = False, reading_context.sensor_type = None,
                 historical_avg = None, time_of_day = None\<rparr>
      in case sensor_reading ev of
           None \<Rightarrow> check_multiple_anomalies st ev ctx
         | Some rid \<Rightarrow>
             (case find (\<lambda>r. reading_id r = rid) (sensor_readings st) of
                None \<Rightarrow> ctx
              | Some reading \<Rightarrow>
                  let ctx1 = ctx\<lparr>recent_value := Some (SensorReading.value reading),
                                 reading_context.sensor_type :=
                                   Some (SensorReading.sensor_type reading),
                                 time_of_day :=
                                   Some (Strftime ''%H:%M'' (AnomalyEvent.timestamp ev))\<rparr>;
                      recent_readings = newest_first
                        (\<lambda>r. SensorReading.plot r = AnomalyEvent.plot ev \<and>
                             SensorReading.sensor_type r = SensorReading.sensor_type reading \<and>
                             SensorReading.timestamp r < SensorReading.timestamp reading)
                        10 (sensor_readings st);
                      ctx2 = (if length recent_readings \<ge> 2 then
                                let values = SensorReading.value reading
                                               # map SensorReading.value recent_readings
                                in ctx1\<lparr>change_rate := Some (calculate_change_rate values),
                                        trend := determine_trend values,
                                        historical_avg :=
                                          Some (py_round (sum_list values / real (length values)) 1)\<rparr>
                              else ctx1)
                  in check_multiple_anomalies st ev ctx2))"

subsection \<open>Agent service (\<^verbatim>\<open>ai_agent/agent_service.py\<close>)\<close>

text \<open>
  \<^verbatim>\<open>process_anomaly\<close> works on a Python instance of \<^verbatim>\<open>AnomalyEvent\<close>: the fields of
  the row and the cache of the reverse accessor \<^verbatim>\<open>recommendation\<close>. Django fills that
  cache at the first access, with the related object or with \<^verbatim>\<open>None\<close> when the query
  finds none, and answers every later access on the same instance from the cache. An
  instance that comes from a query or from \<^verbatim>\<open>objects.create\<close> has an empty cache.
\<close>

datatype reverse_cache = NotLoaded | Loaded "AgentRecommendation option"

record anomaly_instance =
  row :: AnomalyEvent
  recommendation_cache :: reverse_cache

definition fresh_instance :: "AnomalyEvent \<Rightarrow> anomaly_instance" where
  "fresh_instance ev = \<lparr>row = ev, recommendation_cache = NotLoaded\<rparr>"

text \<open>
  Reading \<^verbatim>\<open>anomaly_event.recommendation\<close>: the related object, or \<^verbatim>\<open>None\<close> where the
  accessor raises \<^verbatim>\<open>RelatedObjectDoesNotExist\<close>, which \<^verbatim>\<open>hasattr\<close> turns into
  \<^verbatim>\<open>False\<close>.
\<close>

definition load_recommendation ::
    "store \<Rightarrow> anomaly_instance \<Rightarrow> AgentRecommendation option \<times> anomaly_instance" where
  "load_recommendation st inst =
     (case recommendation_cache inst of
        Loaded c \<Rightarrow> (c, inst)
      | NotLoaded \<Rightarrow>
          let found = find (\<lambda>r. anomaly_event r = event_id (row inst)) (agent_recommendations st)
          in (found, inst\<lparr>recommendation_cache := Loaded found\<rparr>))"

text \<open>
  \<^verbatim>\<open>AgentRecommendation.objects.create\<close> inside \<^verbatim>\<open>transaction.atomic()\<close>. Building the
  object with \<^verbatim>\<open>anomaly_event=anomaly_event\<close> already puts it into the cache of the
  instance; saving it inserts the row, or raises \<^verbatim>\<open>IntegrityError\<close> when the anomaly has
  a recommendation in the table.
\<close>

definition create_recommendation ::
    "store \<Rightarrow> anomaly_instance \<Rightarrow> analysis
     \<Rightarrow> (error + AgentRecommendation) \<times> store \<times> anomaly_instance" where
  "create_recommendation st inst an =
     (let unsaved = \<lparr>rec_id = None,
                      anomaly_event = event_id (row inst),
                      recommended_action = analysis.recommended_action an,
                      explanation_text = analysis.explanation_text an,
                      confidence = analysis.confidence an,
                      timestamp = None\<rparr>
      in if list_ex (\<lambda>r. anomaly_event r = event_id (row inst)) (agent_recommendations st) then
           (Inl (IntegrityError ''anomaly_event_id''), st,
            inst\<lparr>recommendation_cache := Loaded (Some unsaved)\<rparr>)
         else
           let saved = unsaved\<lparr>rec_id := Some (fresh_id (List.map_filter rec_id
                                                      (agent_recommendations st))),
                               timestamp := Some (clock st)\<rparr>
           in (Inr saved, st\<lparr>agent_recommendations := agent_recommendations st @ [saved]\<rparr>,
               inst\<lparr>recommendation_cache := Loaded (Some saved)\<rparr>))"

text \<open>
  \<^verbatim>\<open>process_anomaly\<close> returns the recommendation, or the exception that it logs and
  raises again, together with the store and the instance it leaves behind.
\<close>

definition process_anomaly ::
    "store \<Rightarrow> anomaly_instance \<Rightarrow> (error + AgentRecommendation) \<times> store \<times> anomaly_instance" where
  "process_anomaly st inst =
     (case load_recommendation st inst of
        (Some r, inst1) \<Rightarrow> (Inr r, st, inst1)
      | (None, inst1) \<Rightarrow>
          (case analyze_anomaly (get_reading_context st (row inst1)) (row inst1) of
             Inl e \<Rightarrow> (Inl e, st, inst1)
           | Inr an \<Rightarrow> create_recommendation st inst1 an))"

section \<open>Detection orchestrator (\<^verbatim>\<open>ml_module/views.py\<close>)\<close>

text \<open>The table \<^verbatim>\<open>severity_map\<close> and the lookup \<^verbatim>\<open>severity_map.get(tier, 'medium')\<close>.\<close>

definition severity_map :: "(string \<times> string) list" where
  "severity_map =
     [(''NORMAL'', ''low''), (''MINOR'', ''low''), (''WARNING'', ''medium''), (''CRITICAL'', ''high'')]"

definition map_severity :: "string \<Rightarrow> string" where
  "map_severity tier = (case map_of severity_map tier of Some s \<Rightarrow> s | None \<Rightarrow> ''medium'')"

text \<open>
  \<^verbatim>\<open>AnomalyEvent.objects.create\<close>. Saving the new row fires the \<^verbatim>\<open>post_save\<close> receiver of
  \<^verbatim>\<open>ai_agent/signals.py\<close>, which runs \<^verbatim>\<open>process_anomaly\<close> on it and logs, without raising,
  whatever that raises.
\<close>

definition create_anomaly_event ::
    "store \<Rightarrow> nat \<Rightarrow> nat \<Rightarrow> string \<Rightarrow> string \<Rightarrow> real \<Rightarrow> AnomalyEvent \<times> store" where
  "create_anomaly_event st plot_id rid kind sev conf =
     (let event = \<lparr>event_id = fresh_id (map event_id (anomaly_events st)),
                    AnomalyEvent.plot = plot_id, sensor_reading = Some rid,
                    anomaly_type = kind, AnomalyEvent.severity = sev,
                    model_confidence = conf, AnomalyEvent.timestamp = clock st\<rparr>;
          st1 = st\<lparr>anomaly_events := anomaly_events st @ [event]\<rparr>
      in (event, fst (snd (process_anomaly st1 (fresh_instance event)))))"

text \<open>
  The loop \<^verbatim>\<open>for i, anomaly in enumerate(anomalies)\<close> of \<^verbatim>\<open>detect\<close>. Every entry carries
  the key \<^verbatim>\<open>index\<close>, so \<^verbatim>\<open>anomaly.get('index', i)\<close> is that index.
\<close>

fun create_events ::
    "store \<Rightarrow> nat \<Rightarrow> string \<Rightarrow> SensorReading list \<Rightarrow> detection list \<Rightarrow> nat list \<times> store" where
  "create_events st plot_id stype readings_list [] = ([], st)"
| "create_events st plot_id stype readings_list (anomaly # rest) =
     (let window_index = detection.index anomaly;
          sensor_reading = (if window_index < length readings_list
                            then readings_list ! window_index
                            else readings_list ! 0);
          sev = map_severity (detection.severity anomaly)
      in case create_anomaly_event st plot_id (reading_id sensor_reading)
                (stype @ ''_anomaly'') sev (detection.confidence anomaly) of
           (event, st1) \<Rightarrow>
             (case create_events st1 plot_id stype readings_list rest of
                (created, st2) \<Rightarrow> (event_id event # created, st2)))"

record detect_body =
  total_windows :: nat
  anomalies_detected :: nat
  anomaly_events_created :: "nat list"
  results :: "detection list"

datatype detect_response = ErrorResponse nat string | DetectOK (response_body: detect_body)

text \<open>
  The query of \<^verbatim>\<open>detect\<close>:
  \<^verbatim>\<open>SensorReading.objects.filter(plot=plot, sensor_type=sensor_type).order_by('-timestamp')[:50]\<close>.
\<close>

definition recent_plot_readings :: "store \<Rightarrow> nat \<Rightarrow> string \<Rightarrow> SensorReading list" where
  "recent_plot_readings st plot_id stype =
     newest_first (\<lambda>r. SensorReading.plot r = plot_id \<and> SensorReading.sensor_type r = stype)
       50 (sensor_readings st)"

text \<open>
  The view \<^verbatim>\<open>detect\<close> for a validated request. The detector is the one that
  \<^verbatim>\<open>load_detector_from_disk\<close> returned for the sensor type. The readings are fetched
  newest first and are windowed in that order.
\<close>

definition detect :: "IsolationForestDetector \<Rightarrow> store \<Rightarrow> nat \<Rightarrow> string \<Rightarrow> detect_response \<times> store" where
  "detect detector st plot_id stype =
     (if \<not> is_trained detector then
        (ErrorResponse 400 (''Model not trained for '' @ stype), st)
      else if plot_id \<notin> set (field_plots st) then
        (ErrorResponse 404 (''Plot '' @ show_nat plot_id @ '' does not exist''), st)
      else
        let readings_list = recent_plot_readings st plot_id stype;
            values = map SensorReading.value readings_list
        in if length values < 10 then
             (ErrorResponse 400 (''Not enough data. Need 10+, have '' @ show_nat (length values)), st)
           else
             (case prepare_for_model \<lparr>window_size = 10, is_fitted = False\<rparr> values True of
                Inl e \<Rightarrow> (ErrorResponse 500 (error_message e), st)
              | Inr processed_data \<Rightarrow>
                  (case detect_with_confidence detector processed_data default_min_confidence of
                     Inl e \<Rightarrow> (ErrorResponse 500 (error_message e), st)
                   | Inr detections \<Rightarrow>
                       let anomalies = filter is_anomaly detections
                       in case create_events st plot_id stype readings_list anomalies of
                            (created_events, st') \<Rightarrow>
                              (DetectOK \<lparr>total_windows = length detections,
                                         anomalies_detected = length anomalies,
                                         anomaly_events_created = created_events,
                                         results = detections\<rparr>, st'))))"

section \<open>Sample data\<close>

text \<open>Concrete events and contexts on which the theorems below are instantiated.\<close>

definition sample_event :: "string \<Rightarrow> string \<Rightarrow> real \<Rightarrow> AnomalyEvent" where
  "sample_event kind sev conf =
     \<lparr>event_id = 1, AnomalyEvent.plot = 1, sensor_reading = None, anomaly_type = kind,
      AnomalyEvent.severity = sev, model_confidence = conf, AnomalyEvent.timestamp = 1000\<rparr>"

definition sample_context :: "real option \<Rightarrow> real option \<Rightarrow> reading_context" where
  "sample_context rv cr =
     \<lparr>recent_value = rv, change_rate = cr, trend = ''decreasing'', multiple_anomalies = False,
      reading_context.sensor_type = Some ''moisture'', historical_avg = Some 52.5,
      time_of_day = Some (Strftime ''%H:%M'' 1000)\<rparr>"


text \<open>
  A store with one plot and eleven moisture readings, one every ten time units, all at 50
  except the newest, at 200; and a detector whose scorer flags a row exactly when its
  fourth feature, the maximum of the window, is above 100.
\<close>

definition sample_reading :: "nat \<Rightarrow> real \<Rightarrow> SensorReading" where
  "sample_reading n v =
     \<lparr>reading_id = 100 + n, SensorReading.plot = 1, SensorReading.sensor_type = ''moisture'',
      value = v, SensorReading.timestamp = 10 * n\<rparr>"

definition sample_store :: store where
  "sample_store =
     \<lparr>field_plots = [1],
      sensor_readings =
        [sample_reading 1 50, sample_reading 2 50, sample_reading 3 50, sample_reading 4 50,
         sample_reading 5 50, sample_reading 6 50, sample_reading 7 50, sample_reading 8 50,
         sample_reading 9 50, sample_reading 10 50, sample_reading 11 200],
      anomaly_events = [], agent_recommendations = [], clock = 2000\<rparr>"

definition sample_detector :: IsolationForestDetector where
  "sample_detector =
     \<lparr>model = \<lparr>predict_row = (\<lambda>row. if row ! 3 > 100 then - 1 else 1),
                score_row = (\<lambda>row. if row ! 3 > 100 then - 0.6 else 0.1)\<rparr>,
      is_trained = True, training_data_size = 50, training_date = Some 0\<rparr>"


section \<open>Properties of the preprocessor\<close>

lemma slice_length: "i + w \<le> length xs \<Longrightarrow> length (slice xs i (i + w)) = w"
  by (simp add: slice_def)

text \<open>
  Claim C6. For a list of \<open>window_size + k\<close> values, \<^verbatim>\<open>create_windows\<close> returns exactly
  \<open>k + 1\<close> windows, window \<open>i\<close> is the slice \<^verbatim>\<open>values[i:i+window_size]\<close> and has
  \<open>window_size\<close> elements; for fewer than \<open>window_size\<close> values it raises the
  \<^verbatim>\<open>ValueError\<close> "Not enough data points" (the insufficient-data error of the preprocessor).
\<close>

theorem create_windows_spec:
  "(length values = window_size self + k \<longrightarrow>
      (\<exists>ws. create_windows self values = Inr ws \<and> length ws = k + 1 \<and>
            (\<forall>i<k + 1. ws ! i = slice values i (i + window_size self) \<and>
                        ws ! i = take (window_size self) (drop i values) \<and>
                        length (ws ! i) = window_size self))) \<and>
   (length values < window_size self \<longrightarrow>
      create_windows self values =
        Inl (ValueError (''Not enough data points. Need at least '' @ show_nat (window_size self)
                         @ '', got '' @ show_nat (length values))))"
proof (intro conjI impI)
  assume len: "length values = window_size self + k"
  let ?ws = "map (\<lambda>i. slice values i (i + window_size self)) [0 ..< k + 1]"
  have run: "create_windows self values = Inr ?ws"
    using len by (simp add: create_windows_def)
  have each: "?ws ! i = slice values i (i + window_size self) \<and>
              ?ws ! i = take (window_size self) (drop i values) \<and>
              length (?ws ! i) = window_size self" if "i < k + 1" for i
  proof -
    have nth: "?ws ! i = slice values i (i + window_size self)"
      using that by (simp del: upt_Suc)
    have "i + window_size self \<le> length values" using that len by simp
    then show ?thesis using nth by (simp add: slice_def)
  qed
  have len_ws: "length ?ws = k + 1" by simp
  show "\<exists>ws. create_windows self values = Inr ws \<and> length ws = k + 1 \<and>
            (\<forall>i<k + 1. ws ! i = slice values i (i + window_size self) \<and>
                        ws ! i = take (window_size self) (drop i values) \<and>
                        length (ws ! i) = window_size self)"
    using run len_ws each by blast
next
  assume "length values < window_size self"
  then show "create_windows self values =
        Inl (ValueError (''Not enough data points. Need at least '' @ show_nat (window_size self)
                         @ '', got '' @ show_nat (length values)))"
    by (simp add: create_windows_def)
qed


theorem create_windows_spec_witness:
  "length [60, 58, 56, 55, 40 :: real] = window_size \<lparr>window_size = 3, is_fitted = False\<rparr> + 2 \<and>
   create_windows \<lparr>window_size = 3, is_fitted = False\<rparr> [60, 58, 56, 55, 40 :: real] =
     Inr [[60, 58, 56], [58, 56, 55], [56, 55, 40]] \<and>
   length [10, 20, 30 :: real] < window_size \<lparr>window_size = 5, is_fitted = False\<rparr> \<and>
   create_windows \<lparr>window_size = 5, is_fitted = False\<rparr> [10, 20, 30 :: real] =
     Inl (ValueError ''Not enough data points. Need at least 5, got 3'')"
proof -
  let ?p = "\<lparr>window_size = 3, is_fitted = False\<rparr>"
  let ?q = "\<lparr>window_size = 5, is_fitted = False\<rparr>"
  let ?v = "[60, 58, 56, 55, 40 :: real]"
  have a: "length ?v = window_size ?p + 2" by simp
  have b: "length [10, 20, 30 :: real] < window_size ?q" by simp
  from create_windows_spec [of ?v ?p 2] a
  obtain ws where ws: "create_windows ?p ?v = Inr ws" "length ws = 2 + 1"
    and nth: "\<forall>i<2 + 1. ws ! i = take (window_size ?p) (drop i ?v)"
    by blast
  have "ws ! 0 = [60, 58, 56]" "ws ! 1 = [58, 56, 55]" "ws ! 2 = [56, 55, 40]"
    using nth by simp_all
  moreover have "ws = [ws ! 0, ws ! 1, ws ! 2]"
    using ws(2) by (auto simp: list_eq_iff_nth_eq less_Suc_eq numeral_2_eq_2)
  ultimately have c: "ws = [[60, 58, 56], [58, 56, 55], [56, 55, 40]]" by simp
  have d: "create_windows ?q [10, 20, 30 :: real] =
     Inl (ValueError ''Not enough data points. Need at least 5, got 3'')"
  proof -
    have e: "show_nat (length [10, 20, 30 :: real]) = ''3''" by code_simp
    have f: "show_nat (window_size ?q) = ''5''" by code_simp
    from create_windows_spec [of "[10, 20, 30 :: real]" ?q 0] b
    have "create_windows ?q [10, 20, 30 :: real] =
        Inl (ValueError (''Not enough data points. Need at least '' @ show_nat (window_size ?q)
                         @ '', got '' @ show_nat (length [10, 20, 30 :: real])))"
      by blast
    then show ?thesis unfolding e f by simp
  qed
  show ?thesis using a b ws(1) c d by simp
qed






section \<open>Properties of the novelty detector\<close>

lemma detect_with_confidence_trained:
  "is_trained self \<Longrightarrow>
   detect_with_confidence self data min_confidence =
     Inr (map (detect_row min_confidence)
            (enumerate 0 (zip (map (predict_row (model self)) data)
                              (map (score_row (model self)) data))))"
  by (simp add: detect_with_confidence_def predict_def get_anomaly_scores_def)

text \<open>
  Claim C3. On a trained detector \<^verbatim>\<open>detect_with_confidence\<close> returns one entry per row.
  With \<open>pred\<close> the binary label and \<open>score\<close> the score of row \<open>i\<close>, the entry has
  confidence \<open>min 1 (|score| / 0.5)\<close> when \<open>pred = -1\<close>, else \<open>min 1 (score / 0.5)\<close>
  when \<open>score > 0\<close>, else 0; it is finally anomalous exactly when \<open>pred = -1\<close> and the
  confidence is at least \<^verbatim>\<open>min_confidence\<close>; its severity is NORMAL when it is not finally
  anomalous, and otherwise CRITICAL below -0.4, HIGH below -0.3, MEDIUM below -0.2, else LOW.
\<close>

theorem detect_with_confidence_spec:
  assumes "is_trained self"
  shows "\<exists>results. detect_with_confidence self data min_confidence = Inr results \<and>
           length results = length data \<and>
           (\<forall>i<length data.
              detection.index (results ! i) = i \<and>
              anomaly_score (results ! i) = score_row (model self) (data ! i) \<and>
              detection.confidence (results ! i) =
                (if predict_row (model self) (data ! i) = - 1
                 then min 1 (\<bar>score_row (model self) (data ! i)\<bar> / 0.5)
                 else if score_row (model self) (data ! i) > 0
                      then min 1 (score_row (model self) (data ! i) / 0.5) else 0) \<and>
              (is_anomaly (results ! i) \<longleftrightarrow>
                 predict_row (model self) (data ! i) = - 1 \<and>
                 detection.confidence (results ! i) \<ge> min_confidence) \<and>
              detection.severity (results ! i) =
                (if \<not> is_anomaly (results ! i) then ''NORMAL''
                 else if score_row (model self) (data ! i) < - 0.4 then ''CRITICAL''
                 else if score_row (model self) (data ! i) < - 0.3 then ''HIGH''
                 else if score_row (model self) (data ! i) < - 0.2 then ''MEDIUM''
                 else ''LOW''))"
proof -
  let ?rs = "map (detect_row min_confidence)
               (enumerate 0 (zip (map (predict_row (model self)) data)
                                 (map (score_row (model self)) data)))"
  have run: "detect_with_confidence self data min_confidence = Inr ?rs"
    using assms by (rule detect_with_confidence_trained)
  have len: "length ?rs = length data" by simp
  have nth: "?rs ! i = detect_row min_confidence
               (i, predict_row (model self) (data ! i), score_row (model self) (data ! i))"
    if "i < length data" for i
    using that by (simp add: nth_enumerate_eq)
  have each: "detection.index (?rs ! i) = i \<and>
              anomaly_score (?rs ! i) = score_row (model self) (data ! i) \<and>
              detection.confidence (?rs ! i) =
                (if predict_row (model self) (data ! i) = - 1
                 then min 1 (\<bar>score_row (model self) (data ! i)\<bar> / 0.5)
                 else if score_row (model self) (data ! i) > 0
                      then min 1 (score_row (model self) (data ! i) / 0.5) else 0) \<and>
              (is_anomaly (?rs ! i) \<longleftrightarrow>
                 predict_row (model self) (data ! i) = - 1 \<and>
                 detection.confidence (?rs ! i) \<ge> min_confidence) \<and>
              detection.severity (?rs ! i) =
                (if \<not> is_anomaly (?rs ! i) then ''NORMAL''
                 else if score_row (model self) (data ! i) < - 0.4 then ''CRITICAL''
                 else if score_row (model self) (data ! i) < - 0.3 then ''HIGH''
                 else if score_row (model self) (data ! i) < - 0.2 then ''MEDIUM''
                 else ''LOW'')"
    if "i < length data" for i
    unfolding nth [OF that]
    by (simp add: detect_row_def calculate_severity_def Let_def)
  from run len each show ?thesis by blast
qed

theorem detect_with_confidence_spec_witness:
  "is_trained \<lparr>model = \<lparr>predict_row = (\<lambda>row. if sum_list row < 150 then - 1 else 1),
                        score_row = (\<lambda>row. if sum_list row < 150 then - 0.6 else 0.1)\<rparr>,
              is_trained = True, training_data_size = 50, training_date = Some 0\<rparr> \<and>
   is_anomaly (projr (detect_with_confidence
      \<lparr>model = \<lparr>predict_row = (\<lambda>row. if sum_list row < 150 then - 1 else 1),
                 score_row = (\<lambda>row. if sum_list row < 150 then - 0.6 else 0.1)\<rparr>,
       is_trained = True, training_data_size = 50, training_date = Some 0\<rparr>
      [[60, 2, 57, 63, 6], [40, 5, 33, 47, 14]] 0.999) ! 1) \<and>
   detection.severity (projr (detect_with_confidence
      \<lparr>model = \<lparr>predict_row = (\<lambda>row. if sum_list row < 150 then - 1 else 1),
                 score_row = (\<lambda>row. if sum_list row < 150 then - 0.6 else 0.1)\<rparr>,
       is_trained = True, training_data_size = 50, training_date = Some 0\<rparr>
      [[60, 2, 57, 63, 6], [40, 5, 33, 47, 14]] 0.999) ! 1) = ''CRITICAL''"
proof -
  let ?d = "\<lparr>model = \<lparr>predict_row = (\<lambda>row. if sum_list row < (150::real) then - 1 else (1::int)),
                 score_row = (\<lambda>row. if sum_list row < (150::real) then - 0.6 else (0.1::real))\<rparr>,
       is_trained = True, training_data_size = 50, training_date = Some 0\<rparr>"
  let ?data = "[[60, 2, 57, 63, 6], [40, 5, 33, 47, 14 :: real]]"
  have t: "is_trained ?d" by simp
  from detect_with_confidence_spec [OF t, of ?data "0.999"]
  obtain results where r: "detect_with_confidence ?d ?data 0.999 = Inr results"
    and a: "is_anomaly (results ! 1) \<longleftrightarrow>
              predict_row (model ?d) (?data ! 1) = - 1 \<and>
              detection.confidence (results ! 1) \<ge> 0.999"
    and c: "detection.confidence (results ! 1) =
                (if predict_row (model ?d) (?data ! 1) = - 1
                 then min 1 (\<bar>score_row (model ?d) (?data ! 1)\<bar> / 0.5)
                 else if score_row (model ?d) (?data ! 1) > 0
                      then min 1 (score_row (model ?d) (?data ! 1) / 0.5) else 0)"
    and s: "detection.severity (results ! 1) =
                (if \<not> is_anomaly (results ! 1) then ''NORMAL''
                 else if score_row (model ?d) (?data ! 1) < - 0.4 then ''CRITICAL''
                 else if score_row (model ?d) (?data ! 1) < - 0.3 then ''HIGH''
                 else if score_row (model ?d) (?data ! 1) < - 0.2 then ''MEDIUM''
                 else ''LOW'')"
    by force
  have c1: "detection.confidence (results ! 1) = 1" using c by simp
  have a1: "is_anomaly (results ! 1)" using a c1 by simp
  have s1: "detection.severity (results ! 1) = ''CRITICAL''" using s a1 by simp
  show ?thesis using t r a1 s1 by simp
qed

text \<open>
  Claim C8. On an untrained detector \<^verbatim>\<open>predict\<close>, \<^verbatim>\<open>get_anomaly_scores\<close> and
  \<^verbatim>\<open>save_model\<close> all fail, for every input: the first two with the \<^verbatim>\<open>ValueError\<close>
  "Model not trained yet! Call train() first.", the last with the \<^verbatim>\<open>ValueError\<close>
  "Cannot save untrained model" (the not-trained error of the detector).
\<close>

theorem untrained_detector_fails:
  assumes "\<not> is_trained self"
  shows "predict self data = Inl (ValueError ''Model not trained yet! Call train() first.'') \<and>
         get_anomaly_scores self data =
           Inl (ValueError ''Model not trained yet! Call train() first.'') \<and>
         save_model self filepath fs = Inl (ValueError ''Cannot save untrained model'')"
  using assms by (simp add: predict_def get_anomaly_scores_def save_model_def)

theorem untrained_detector_fails_witness:
  "\<not> is_trained (init_detector \<lparr>predict_row = (\<lambda>row. 1), score_row = (\<lambda>row. 0.1)\<rparr>) \<and>
   predict (init_detector \<lparr>predict_row = (\<lambda>row. 1), score_row = (\<lambda>row. 0.1)\<rparr>)
       [[60, 2, 57, 63, 6]] =
     Inl (ValueError ''Model not trained yet! Call train() first.'') \<and>
   get_anomaly_scores (init_detector \<lparr>predict_row = (\<lambda>row. 1), score_row = (\<lambda>row. 0.1)\<rparr>)
       [[60, 2, 57, 63, 6]] =
     Inl (ValueError ''Model not trained yet! Call train() first.'') \<and>
   save_model (init_detector \<lparr>predict_row = (\<lambda>row. 1), score_row = (\<lambda>row. 0.1)\<rparr>)
       ''moisture_model.pkl'' Map.empty =
     Inl (ValueError ''Cannot save untrained model'')"
proof -
  have u: "\<not> is_trained (init_detector \<lparr>predict_row = (\<lambda>row. 1), score_row = (\<lambda>row. 0.1)\<rparr>)"
    by (simp add: init_detector_def)
  show ?thesis
    using u untrained_detector_fails [OF u, of "[[60, 2, 57, 63, 6]]" "''moisture_model.pkl''" Map.empty]
    by simp
qed
section \<open>Properties of the rule engine\<close>

lemma py_round_unit:
  assumes "0 \<le> x" and "x \<le> 1"
  shows "0 \<le> py_round x n \<and> py_round x n \<le> 1"
proof -
  define s :: int where "s = 10 ^ n"
  define y where "y = x * of_int s"
  define f where "f = \<lfloor>y\<rfloor>"
  have s: "0 < s" by (simp add: s_def)
  have y: "0 \<le> y" "y \<le> of_int s"
    using assms s by (simp_all add: y_def mult_left_le_one_le)
  have f0: "0 \<le> f" using y(1) by (simp add: f_def)
  have fs: "f \<le> s" using y(2) unfolding f_def by (simp add: floor_le_iff)
  have up: "f + 1 \<le> s" if "\<not> y - of_int f < 1 / 2"
  proof -
    have "of_int f + 1 / 2 \<le> y" using that by simp
    then have "real_of_int f < of_int s" using y(2) by simp
    then show ?thesis by simp
  qed
  have r: "py_round x n =
     (if y - of_int f < 1 / 2 then of_int f
      else if y - of_int f > 1 / 2 then of_int (f + 1)
      else if even f then of_int f else of_int (f + 1)) / of_int s"
    by (simp add: py_round_def Let_def y_def f_def s_def)
  have lo: "(0::real) \<le> of_int f" "(0::real) \<le> of_int (f + 1)" using f0 by simp_all
  have hi: "real_of_int f \<le> of_int s" using fs by simp
  have hi': "real_of_int (f + 1) \<le> of_int s" if "\<not> y - of_int f < 1 / 2"
    using up [OF that] by (simp only: of_int_le_iff)
  have pos: "(0::real) < of_int s" using s by simp
  show ?thesis
    unfolding r using lo hi hi' pos by (auto simp del: of_int_add simp: divide_le_eq)
qed

lemma calculate_confidence_unit:
  assumes "0 \<le> c" and "c \<le> 1"
  shows "0 \<le> calculate_confidence c r \<and> calculate_confidence c r \<le> 1"
  unfolding calculate_confidence_def using assms by (intro py_round_unit) auto

lemma moisture_confidence_unit:
  assumes "0 \<le> model_confidence a" and "model_confidence a \<le> 1"
    and "analyze_moisture_anomaly a ctx = Inr r"
  shows "0 \<le> analysis.confidence r \<and> analysis.confidence r \<le> 1"
  using assms calculate_confidence_unit [OF assms(1,2)]
  by (auto simp: analyze_moisture_anomaly_def split: option.splits if_splits)

lemma temperature_confidence_unit:
  assumes "0 \<le> model_confidence a" and "model_confidence a \<le> 1"
    and "analyze_temperature_anomaly a ctx = Inr r"
  shows "0 \<le> analysis.confidence r \<and> analysis.confidence r \<le> 1"
  using assms
  by (auto simp: analyze_temperature_anomaly_def split: option.splits if_splits)

lemma humidity_confidence_unit:
  assumes "0 \<le> model_confidence a" and "model_confidence a \<le> 1"
    and "analyze_humidity_anomaly a ctx = Inr r"
  shows "0 \<le> analysis.confidence r \<and> analysis.confidence r \<le> 1"
  using assms
  by (auto simp: analyze_humidity_anomaly_def split: sum.splits if_splits)

lemma generic_confidence_unit:
  assumes "0 \<le> model_confidence a" and "model_confidence a \<le> 1"
    and "analyze_generic_anomaly a ctx = Inr r"
  shows "0 \<le> analysis.confidence r \<and> analysis.confidence r \<le> 1"
  using assms
  by (auto simp: analyze_generic_anomaly_def split: if_splits)

text \<open>
  Claim C9. For an anomaly whose model confidence lies in \<open>[0, 1]\<close> and any context, the
  confidence of every result returned by \<^verbatim>\<open>analyze_anomaly\<close>, through whichever rule set
  and branch, lies in \<open>[0, 1]\<close>.
\<close>

theorem analyze_confidence_unit:
  assumes "0 \<le> model_confidence a" and "model_confidence a \<le> 1"
    and "analyze_anomaly ctx a = Inr r"
  shows "0 \<le> analysis.confidence r \<and> analysis.confidence r \<le> 1"
proof -
  consider (m) "analyze_moisture_anomaly a ctx = Inr r"
    | (t) "analyze_temperature_anomaly a ctx = Inr r"
    | (h) "analyze_humidity_anomaly a ctx = Inr r"
    | (g) "analyze_generic_anomaly a ctx = Inr r"
    using assms(3) by (auto simp: analyze_anomaly_def split: if_splits)
  then show ?thesis
  proof cases
    case m then show ?thesis using assms(1,2) by (rule moisture_confidence_unit [rotated 2])
  next
    case t then show ?thesis using assms(1,2) by (rule temperature_confidence_unit [rotated 2])
  next
    case h then show ?thesis using assms(1,2) by (rule humidity_confidence_unit [rotated 2])
  next
    case g then show ?thesis using assms(1,2) by (rule generic_confidence_unit [rotated 2])
  qed
qed

lemma moisture_kind: "contains (lower ''moisture_anomaly'') ''moisture''"
  by (simp add: lower_def lower_char_def lower_table_def)

theorem analyze_confidence_unit_witness:
  "0 \<le> model_confidence (sample_event ''moisture_anomaly'' ''high'' 0.95) \<and>
   model_confidence (sample_event ''moisture_anomaly'' ''high'' 0.95) \<le> 1 \<and>
   isl (analyze_anomaly (sample_context (Some 48) (Some (- 25)))
          (sample_event ''moisture_anomaly'' ''high'' 0.95)) = False \<and>
   0 \<le> analysis.confidence (projr (analyze_anomaly (sample_context (Some 48) (Some (- 25)))
          (sample_event ''moisture_anomaly'' ''high'' 0.95))) \<and>
   analysis.confidence (projr (analyze_anomaly (sample_context (Some 48) (Some (- 25)))
          (sample_event ''moisture_anomaly'' ''high'' 0.95))) \<le> 1"
proof -
  let ?a = "sample_event ''moisture_anomaly'' ''high'' 0.95"
  let ?c = "sample_context (Some 48) (Some (- 25))"
  have lo: "0 \<le> model_confidence ?a" and hi: "model_confidence ?a \<le> 1"
    by (simp_all add: sample_event_def)
  have "\<exists>r. analyze_anomaly ?c ?a = Inr r"
    using moisture_kind
    by (simp add: analyze_anomaly_def analyze_moisture_anomaly_def sample_event_def
        sample_context_def critical_low_moisture_def)
  then obtain r where r: "analyze_anomaly ?c ?a = Inr r" ..
  from analyze_confidence_unit [OF lo hi r] lo hi r show ?thesis by simp
qed

text \<open>
  Claim C5. A moisture anomaly whose context has \<open>recent_value = 30\<close>, below the
  critical-low threshold 35, gets the urgent-irrigation result with priority high and
  confidence \<open>min (model_confidence + 0.15) 1\<close>, whatever the change rate (present or
  missing) and the rest of the context are: the critical-low rule is tested before the
  sudden-drop rule.
\<close>

theorem moisture_critical_low_first:
  assumes "contains (lower (anomaly_type a)) ''moisture''"
    and "recent_value ctx = Some 30"
  shows "\<exists>r. analyze_anomaly ctx a = Inr r \<and>
           analysis.recommended_action r =
             ''URGENT: Immediate irrigation required - crops under severe drought stress'' \<and>
           analysis.priority r = ''high'' \<and>
           analysis.confidence r = min (model_confidence a + 0.15) 1"
  using assms
  by (simp add: analyze_anomaly_def analyze_moisture_anomaly_def critical_low_moisture_def)

theorem moisture_critical_low_first_witness:
  "contains (lower (anomaly_type (sample_event ''moisture_anomaly'' ''low'' 0.9))) ''moisture'' \<and>
   recent_value (sample_context (Some 30) (Some (- 50))) = Some 30 \<and>
   change_rate (sample_context (Some 30) (Some (- 50))) = Some (- 50) \<and>
   analysis.recommended_action (projr (analyze_anomaly (sample_context (Some 30) (Some (- 50)))
       (sample_event ''moisture_anomaly'' ''low'' 0.9))) =
     ''URGENT: Immediate irrigation required - crops under severe drought stress'' \<and>
   analysis.priority (projr (analyze_anomaly (sample_context (Some 30) (Some (- 50)))
       (sample_event ''moisture_anomaly'' ''low'' 0.9))) = ''high'' \<and>
   analysis.confidence (projr (analyze_anomaly (sample_context (Some 30) (Some (- 50)))
       (sample_event ''moisture_anomaly'' ''low'' 0.9))) = 1"
proof -
  let ?a = "sample_event ''moisture_anomaly'' ''low'' 0.9"
  let ?c = "sample_context (Some 30) (Some (- 50))"
  have k: "contains (lower (anomaly_type ?a)) ''moisture''"
    using moisture_kind by (simp add: sample_event_def)
  have v: "recent_value ?c = Some 30" and cr: "change_rate ?c = Some (- 50)"
    by (simp_all add: sample_context_def)
  from moisture_critical_low_first [OF k v]
  obtain r where r: "analyze_anomaly ?c ?a = Inr r"
    and act: "analysis.recommended_action r =
       ''URGENT: Immediate irrigation required - crops under severe drought stress''"
    and p: "analysis.priority r = ''high''"
    and c: "analysis.confidence r = min (model_confidence ?a + 0.15) 1"
    by blast
  have c1: "analysis.confidence r = 1" using c by (simp add: sample_event_def)
  show ?thesis using k v cr r act p c1 by simp
qed

text \<open>
  Claim C10. The humidity rules are not total on missing sensor data. When the context
  has no recent value, the truthiness guards of the first two humidity rules are false,
  and the analysis raises \<^verbatim>\<open>TypeError\<close> when it formats the value with \<^verbatim>\<open>.1f\<close>, in the
  medium-severity branch and in the default branch alike, that is, for every severity.
  The moisture and temperature rules return their investigate-sensor result instead.
\<close>

theorem humidity_missing_value_raises:
  assumes "recent_value ctx = None"
  shows "\<not> truthy_and (recent_value ctx) (\<lambda>v. v < real critical_low_humidity) \<and>
         \<not> truthy_and (recent_value ctx) (\<lambda>v. v > real critical_high_humidity) \<and>
         analyze_humidity_anomaly a ctx =
           Inl (TypeError ''unsupported format string passed to NoneType.__format__'') \<and>
         (\<exists>r. analyze_moisture_anomaly a ctx = Inr r \<and>
              analysis.recommended_action r = ''Investigate moisture sensor - no recent data available'' \<and>
              analysis.confidence r = model_confidence a * 0.5 \<and> analysis.priority r = ''medium'') \<and>
         (\<exists>r. analyze_temperature_anomaly a ctx = Inr r \<and>
              analysis.recommended_action r =
                ''Investigate temperature sensor - no recent data available'' \<and>
              analysis.confidence r = model_confidence a * 0.5 \<and> analysis.priority r = ''medium'')"
  using assms
  by (simp add: analyze_humidity_anomaly_def analyze_moisture_anomaly_def
      analyze_temperature_anomaly_def truthy_and_def format_1f_def)

theorem humidity_missing_value_raises_witness:
  "recent_value (sample_context None None) = None \<and>
   analyze_humidity_anomaly (sample_event ''humidity_anomaly'' ''medium'' 0.9)
       (sample_context None None) =
     Inl (TypeError ''unsupported format string passed to NoneType.__format__'') \<and>
   analyze_humidity_anomaly (sample_event ''humidity_anomaly'' ''low'' 0.9)
       (sample_context None None) =
     Inl (TypeError ''unsupported format string passed to NoneType.__format__'') \<and>
   analysis.recommended_action (projr (analyze_moisture_anomaly
       (sample_event ''moisture_anomaly'' ''medium'' 0.9) (sample_context None None))) =
     ''Investigate moisture sensor - no recent data available''"
proof -
  have n: "recent_value (sample_context None None) = None"
    by (simp add: sample_context_def)
  from humidity_missing_value_raises [OF n, of "sample_event ''moisture_anomaly'' ''medium'' 0.9"]
  obtain r where "analyze_moisture_anomaly (sample_event ''moisture_anomaly'' ''medium'' 0.9)
        (sample_context None None) = Inr r"
    and "analysis.recommended_action r = ''Investigate moisture sensor - no recent data available''"
    by blast
  then show ?thesis
    using n humidity_missing_value_raises [OF n, of "sample_event ''humidity_anomaly'' ''medium'' 0.9"]
      humidity_missing_value_raises [OF n, of "sample_event ''humidity_anomaly'' ''low'' 0.9"]
    by simp
qed

section \<open>Properties of the agent service\<close>

lemma find_snoc_new:
  "find P xs = None \<Longrightarrow> P x \<Longrightarrow> find P (xs @ [x]) = Some x"
  by (induction xs) (auto split: if_splits)



















section \<open>Properties of the detection orchestrator\<close>

lemma process_anomaly_keeps_events:
  "anomaly_events (fst (snd (process_anomaly st inst))) = anomaly_events st"
  by (auto simp: process_anomaly_def load_recommendation_def create_recommendation_def Let_def
      split: reverse_cache.splits option.splits sum.splits)

lemma create_anomaly_event_appends:
  assumes "create_anomaly_event st p rid kind sev conf = (event, st')"
  shows "anomaly_events st' = anomaly_events st @ [event] \<and>
         sensor_reading event = Some rid \<and> AnomalyEvent.severity event = sev \<and>
         model_confidence event = conf \<and> anomaly_type event = kind \<and>
         AnomalyEvent.plot event = p"
  using assms
  by (auto simp: create_anomaly_event_def Let_def process_anomaly_keeps_events)

lemma create_events_appends:
  assumes "create_events st p ty rl flagged = (created, st')"
  shows "\<exists>evs. anomaly_events st' = anomaly_events st @ evs \<and>
           created = map event_id evs \<and>
           map sensor_reading evs =
             map (\<lambda>a. Some (reading_id (if detection.index a < length rl
                                          then rl ! detection.index a else rl ! 0))) flagged \<and>
           map AnomalyEvent.severity evs = map (\<lambda>a. map_severity (detection.severity a)) flagged \<and>
           map model_confidence evs = map detection.confidence flagged \<and>
           map anomaly_type evs = map (\<lambda>a. ty @ ''_anomaly'') flagged \<and>
           map AnomalyEvent.plot evs = map (\<lambda>a. p) flagged"
  using assms
proof (induction flagged arbitrary: st created st')
  case Nil
  then show ?case by simp
next
  case (Cons a rest)
  let ?rid = "reading_id (if detection.index a < length rl then rl ! detection.index a else rl ! 0)"
  obtain event st1 where one:
    "create_anomaly_event st p ?rid (ty @ ''_anomaly'') (map_severity (detection.severity a))
       (detection.confidence a) = (event, st1)"
    by (cases "create_anomaly_event st p ?rid (ty @ ''_anomaly'')
                 (map_severity (detection.severity a)) (detection.confidence a)")
  obtain created1 st2 where more: "create_events st1 p ty rl rest = (created1, st2)"
    by (cases "create_events st1 p ty rl rest")
  have res: "created = event_id event # created1" "st' = st2"
    using Cons.prems one more by (simp_all add: Let_def)
  from Cons.IH [OF more] obtain evs where evs:
    "anomaly_events st2 = anomaly_events st1 @ evs" "created1 = map event_id evs"
    "map sensor_reading evs =
       map (\<lambda>a. Some (reading_id (if detection.index a < length rl
                                    then rl ! detection.index a else rl ! 0))) rest"
    "map AnomalyEvent.severity evs = map (\<lambda>a. map_severity (detection.severity a)) rest"
    "map model_confidence evs = map detection.confidence rest"
    "map anomaly_type evs = map (\<lambda>a. ty @ ''_anomaly'') rest"
    "map AnomalyEvent.plot evs = map (\<lambda>a. p) rest"
    by blast
  note ev = create_anomaly_event_appends [OF one]
  show ?case
    using res evs ev by (intro exI [of _ "event # evs"]) simp
qed

lemma map_result_all:
  "(\<And>x. x \<in> set xs \<Longrightarrow> f x = Inr (g x)) \<Longrightarrow> map_result f xs = Inr (map g xs)"
  by (induction xs) simp_all

lemma prepare_for_model_windows:
  assumes "10 \<le> length values"
  shows "\<exists>processed. prepare_for_model \<lparr>window_size = 10, is_fitted = False\<rparr> values True
                        = Inr processed \<and>
                      length processed = length values - 10 + 1 \<and>
                      (\<forall>i<length processed.
                         calculate_features (take 10 (drop i values)) = Inr (processed ! i))"
proof -
  let ?ws = "map (\<lambda>i. slice values i (i + 10)) [0 ..< length values - 10 + 1]"
  let ?g = "\<lambda>w. [np_mean w, np_std w, np_min w, max_list w, max_list w - np_min w]"
  have cw: "create_windows \<lparr>window_size = 10, is_fitted = False\<rparr> values = Inr ?ws"
    using assms by (simp add: create_windows_def)
  have feat: "calculate_features (slice values i (i + 10)) = Inr (?g (slice values i (i + 10)))"
    if "i < length values - 10 + 1" for i
  proof -
    have "length (slice values i (i + 10)) = 10" using that assms by (simp add: slice_def)
    then have "slice values i (i + 10) \<noteq> []" by auto
    then show ?thesis by (simp add: calculate_features_def)
  qed
  have "calculate_features w = Inr (?g w)" if "w \<in> set ?ws" for w
    using that feat by (auto simp del: upt_Suc)
  then have "map_result calculate_features ?ws = Inr (map ?g ?ws)"
    by (rule map_result_all)
  then have run: "prepare_for_model \<lparr>window_size = 10, is_fitted = False\<rparr> values True
               = Inr (map ?g ?ws)"
    using cw by (simp add: prepare_for_model_def)
  have len: "length (map ?g ?ws) = length values - 10 + 1" by (simp del: upt_Suc)
  have each: "calculate_features (take 10 (drop i values)) = Inr (map ?g ?ws ! i)"
    if "i < length (map ?g ?ws)" for i
  proof -
    have i: "i < length values - 10 + 1" using that by (simp del: upt_Suc)
    then have "map ?g ?ws ! i = ?g (slice values i (i + 10))" by (simp del: upt_Suc)
    moreover have "slice values i (i + 10) = take 10 (drop i values)" by (simp add: slice_def)
    ultimately show ?thesis using feat [OF i] by simp
  qed
  from run len each show ?thesis by blast
qed

lemma detect_succeeds:
  assumes "is_trained d" and "p \<in> set (field_plots st)"
    and "10 \<le> length (recent_plot_readings st p ty)"
    and "prepare_for_model \<lparr>window_size = 10, is_fitted = False\<rparr>
           (map SensorReading.value (recent_plot_readings st p ty)) True = Inr processed"
    and "detect_with_confidence d processed default_min_confidence = Inr rs"
    and "create_events st p ty (recent_plot_readings st p ty) (filter is_anomaly rs) = (created, st')"
  shows "detect d st p ty =
           (DetectOK \<lparr>total_windows = length rs,
                      anomalies_detected = length (filter is_anomaly rs),
                      anomaly_events_created = created, results = rs\<rparr>, st')"
  using assms by (simp add: detect_def Let_def)

lemma detect_ok_cases:
  assumes "detect d st p ty = (DetectOK body, st')"
  shows "10 \<le> length (recent_plot_readings st p ty) \<and>
         length (results body) = length (recent_plot_readings st p ty) - 10 + 1 \<and>
         (\<forall>i<length (results body).
            \<exists>features.
              calculate_features
                (take 10 (drop i (map SensorReading.value (recent_plot_readings st p ty))))
                = Inr features \<and>
              results body ! i =
                detect_row default_min_confidence
                  (i, predict_row (model d) features, score_row (model d) features)) \<and>
         total_windows body = length (results body) \<and>
         anomalies_detected body = length (filter is_anomaly (results body)) \<and>
         create_events st p ty (recent_plot_readings st p ty) (filter is_anomaly (results body))
           = (anomaly_events_created body, st')"
proof -
  let ?rl = "recent_plot_readings st p ty"
  let ?vals = "map SensorReading.value ?rl"
  have tr: "is_trained d" and len: "10 \<le> length ?rl"
    using assms by (auto simp: detect_def Let_def split: if_splits)
  from prepare_for_model_windows [of ?vals] len
  obtain processed where pr:
    "prepare_for_model \<lparr>window_size = 10, is_fitted = False\<rparr> ?vals True = Inr processed"
    and plen: "length processed = length ?rl - 10 + 1"
    and feats: "\<forall>i<length processed.
                  calculate_features (take 10 (drop i ?vals)) = Inr (processed ! i)"
    by auto
  let ?rs = "map (detect_row default_min_confidence)
               (enumerate 0 (zip (map (predict_row (model d)) processed)
                                 (map (score_row (model d)) processed)))"
  have dw: "detect_with_confidence d processed default_min_confidence = Inr ?rs"
    using tr by (rule detect_with_confidence_trained)
  have body: "results body = ?rs"
    and tw: "total_windows body = length ?rs"
    and ad: "anomalies_detected body = length (filter is_anomaly ?rs)"
    and ce: "create_events st p ty ?rl (filter is_anomaly ?rs) = (anomaly_events_created body, st')"
    using assms tr len pr dw
    by (auto simp: detect_def Let_def split: if_splits prod.splits)
  have row: "\<exists>features. calculate_features (take 10 (drop i ?vals)) = Inr features \<and>
               ?rs ! i = detect_row default_min_confidence
                           (i, predict_row (model d) features, score_row (model d) features)"
    if "i < length ?rs" for i
  proof -
    have i: "i < length processed" using that by simp
    then have "?rs ! i = detect_row default_min_confidence
                 (i, predict_row (model d) (processed ! i), score_row (model d) (processed ! i))"
      by (simp add: nth_enumerate_eq)
    then show ?thesis using feats i by blast
  qed
  have rlen: "length ?rs = length ?rl - 10 + 1" using plen by simp
  show ?thesis
    unfolding body using len rlen row tw ad ce by blast
qed

lemma newest_first_descending:
  assumes "i \<le> j" and "j < length (newest_first keep n rows)"
  shows "SensorReading.timestamp (newest_first keep n rows ! j)
           \<le> SensorReading.timestamp (newest_first keep n rows ! i)"
proof -
  let ?s = "sort_key SensorReading.timestamp (filter keep rows)"
  have "sorted (map SensorReading.timestamp ?s)" by (rule sorted_sort_key)
  then have "sorted_wrt (\<lambda>x y. SensorReading.timestamp x \<le> SensorReading.timestamp y) ?s"
    by (simp add: sorted_wrt_map)
  then have "sorted_wrt (\<lambda>x y. SensorReading.timestamp y \<le> SensorReading.timestamp x) (rev ?s)"
    by (simp add: sorted_wrt_rev)
  then have "sorted_wrt (\<lambda>x y. SensorReading.timestamp y \<le> SensorReading.timestamp x)
               (newest_first keep n rows)"
    unfolding newest_first_def by (rule sorted_wrt_take)
  then show ?thesis
    using assms by (cases "i = j") (auto simp: sorted_wrt_iff_nth_less)
qed

lemma take_descending_rest:
  assumes "sorted_wrt (\<lambda>x y. f y \<le> (f x :: nat)) xs"
    and "r \<in> set xs" and "r \<notin> set (take n xs)"
  shows "length (take n xs) = n \<and> (\<forall>x \<in> set (take n xs). f r \<le> f x)"
proof -
  from assms(2) obtain k where k: "k < length xs" "xs ! k = r"
    by (auto simp: in_set_conv_nth)
  have nk: "n \<le> k"
  proof (rule ccontr)
    assume "\<not> n \<le> k"
    then have "k < length (take n xs)" "take n xs ! k = r" using k by simp_all
    then have "r \<in> set (take n xs)" using nth_mem by blast
    then show False using assms(3) by simp
  qed
  have ord: "\<forall>i j. i < j \<longrightarrow> j < length xs \<longrightarrow> f (xs ! j) \<le> f (xs ! i)"
    using assms(1) by (simp add: sorted_wrt_iff_nth_less)
  have "f r \<le> f x" if "x \<in> set (take n xs)" for x
  proof -
    from that obtain j where j: "j < length (take n xs)" "take n xs ! j = x"
      by (auto simp: in_set_conv_nth)
    then have "j < k" "xs ! j = x" using nk by simp_all
    then show ?thesis using ord k by blast
  qed
  moreover have "length (take n xs) = n" using nk k(1) by simp
  ultimately show ?thesis by blast
qed

lemma recent_plot_readings_query:
  "length (recent_plot_readings st p ty) =
     min 50 (length (filter (\<lambda>r. SensorReading.plot r = p \<and> SensorReading.sensor_type r = ty)
                            (sensor_readings st))) \<and>
   (\<forall>r \<in> set (recent_plot_readings st p ty).
      r \<in> set (sensor_readings st) \<and> SensorReading.plot r = p \<and>
      SensorReading.sensor_type r = ty) \<and>
   (\<forall>r \<in> set (sensor_readings st).
      SensorReading.plot r = p \<and> SensorReading.sensor_type r = ty \<and>
      r \<notin> set (recent_plot_readings st p ty) \<longrightarrow>
        length (recent_plot_readings st p ty) = 50 \<and>
        (\<forall>x \<in> set (recent_plot_readings st p ty).
           SensorReading.timestamp r \<le> SensorReading.timestamp x))"
proof -
  define kept where
    "kept = filter (\<lambda>r. SensorReading.plot r = p \<and> SensorReading.sensor_type r = ty)
              (sensor_readings st)"
  define xs where "xs = rev (sort_key SensorReading.timestamp kept)"
  have rl: "recent_plot_readings st p ty = take 50 xs"
    by (simp add: recent_plot_readings_def newest_first_def xs_def kept_def)
  have setxs: "set xs = set kept" by (simp add: xs_def)
  have setkept: "set kept = {r \<in> set (sensor_readings st).
                              SensorReading.plot r = p \<and> SensorReading.sensor_type r = ty}"
    by (simp add: kept_def)
  have lenxs: "length xs = length kept" by (simp add: xs_def)
  have desc: "sorted_wrt (\<lambda>x y. SensorReading.timestamp y \<le> SensorReading.timestamp x) xs"
  proof -
    have "sorted (map SensorReading.timestamp (sort_key SensorReading.timestamp kept))"
      by (rule sorted_sort_key)
    then show ?thesis by (simp add: xs_def sorted_wrt_map sorted_wrt_rev)
  qed
  have a: "length (take 50 xs) = min 50 (length kept)"
    using lenxs by (simp add: min.commute)
  have b: "r \<in> set (sensor_readings st) \<and> SensorReading.plot r = p \<and>
           SensorReading.sensor_type r = ty" if "r \<in> set (take 50 xs)" for r
  proof -
    from that have "r \<in> set xs" by (rule in_set_takeD)
    then show ?thesis using setxs setkept by blast
  qed
  have c: "length (take 50 xs) = 50 \<and>
           (\<forall>x \<in> set (take 50 xs). SensorReading.timestamp r \<le> SensorReading.timestamp x)"
    if "r \<in> set (sensor_readings st)"
      "SensorReading.plot r = p \<and> SensorReading.sensor_type r = ty"
      "r \<notin> set (take 50 xs)" for r
  proof -
    from that(1,2) have "r \<in> set xs" using setxs setkept by blast
    with desc show ?thesis using that(3) by (rule take_descending_rest)
  qed
  show ?thesis
    unfolding rl using a b c unfolding kept_def by blast
qed

lemma detect_row_flag:
  "detection.index (detect_row default_min_confidence (i, pred, score)) = i \<and>
   anomaly_score (detect_row default_min_confidence (i, pred, score)) = score \<and>
   detection.confidence (detect_row default_min_confidence (i, pred, score)) =
     (if pred = - 1 then min 1 (\<bar>score\<bar> / 0.5)
      else if score > 0 then min 1 (score / 0.5) else 0) \<and>
   (is_anomaly (detect_row default_min_confidence (i, pred, score)) \<longleftrightarrow>
      pred = - 1 \<and> min 1 (\<bar>score\<bar> / 0.5) \<ge> 0.999) \<and>
   detection.severity (detect_row default_min_confidence (i, pred, score)) =
     calculate_severity score (is_anomaly (detect_row default_min_confidence (i, pred, score)))"
  by (auto simp: detect_row_def default_min_confidence_def Let_def min_def)

lemma sample_recent:
  "recent_plot_readings sample_store 1 ''moisture'' =
     [sample_reading 11 200, sample_reading 10 50, sample_reading 9 50, sample_reading 8 50,
      sample_reading 7 50, sample_reading 6 50, sample_reading 5 50, sample_reading 4 50,
      sample_reading 3 50, sample_reading 2 50, sample_reading 1 50]"
  by (simp add: recent_plot_readings_def newest_first_def sample_store_def sample_reading_def)

lemma sample_processed:
  "prepare_for_model \<lparr>window_size = 10, is_fitted = False\<rparr>
     (map SensorReading.value (recent_plot_readings sample_store 1 ''moisture'')) True =
   Inr [[np_mean [200, 50, 50, 50, 50, 50, 50, 50, 50, 50],
         np_std [200, 50, 50, 50, 50, 50, 50, 50, 50, 50], 50, 200, 150],
        [np_mean [50, 50, 50, 50, 50, 50, 50, 50, 50, 50],
         np_std [50, 50, 50, 50, 50, 50, 50, 50, 50, 50], 50, 50, 0]]"
  unfolding sample_recent
  by (simp add: prepare_for_model_def create_windows_def slice_def calculate_features_def
      sample_reading_def upt_rec)

lemma sample_results:
  "detect_with_confidence sample_detector
     [[np_mean [200, 50, 50, 50, 50, 50, 50, 50, 50, 50],
       np_std [200, 50, 50, 50, 50, 50, 50, 50, 50, 50], 50, 200, 150],
      [np_mean [50, 50, 50, 50, 50, 50, 50, 50, 50, 50],
       np_std [50, 50, 50, 50, 50, 50, 50, 50, 50, 50], 50, 50, 0]]
     default_min_confidence =
   Inr [\<lparr>index = 0, is_anomaly = True, anomaly_score = - 0.6, detection.confidence = 1,
         detection.severity = ''CRITICAL''\<rparr>,
        \<lparr>index = 1, is_anomaly = False, anomaly_score = 0.1, detection.confidence = 0.2,
         detection.severity = ''NORMAL''\<rparr>]"
  by (simp add: detect_with_confidence_def predict_def get_anomaly_scores_def sample_detector_def
      detect_row_def calculate_severity_def default_min_confidence_def Let_def enumerate_eq_zip
      upt_rec)

lemma sample_detect_run:
  "\<exists>created st'.
     create_events sample_store 1 ''moisture'' (recent_plot_readings sample_store 1 ''moisture'')
       [\<lparr>index = 0, is_anomaly = True, anomaly_score = - 0.6, detection.confidence = 1,
         detection.severity = ''CRITICAL''\<rparr>] = (created, st') \<and>
     detect sample_detector sample_store 1 ''moisture'' =
       (DetectOK \<lparr>total_windows = 2, anomalies_detected = 1, anomaly_events_created = created,
                  results =
                    [\<lparr>index = 0, is_anomaly = True, anomaly_score = - 0.6,
                      detection.confidence = 1, detection.severity = ''CRITICAL''\<rparr>,
                     \<lparr>index = 1, is_anomaly = False, anomaly_score = 0.1,
                      detection.confidence = 0.2, detection.severity = ''NORMAL''\<rparr>]\<rparr>, st')"
proof -
  let ?rl = "recent_plot_readings sample_store 1 ''moisture''"
  let ?a = "\<lparr>index = 0, is_anomaly = True, anomaly_score = - 0.6, detection.confidence = 1,
            detection.severity = ''CRITICAL''\<rparr>"
  let ?b = "\<lparr>index = 1, is_anomaly = False, anomaly_score = 0.1, detection.confidence = 0.2,
            detection.severity = ''NORMAL''\<rparr>"
  obtain created st' where ce: "create_events sample_store 1 ''moisture'' ?rl [?a] = (created, st')"
    by (cases "create_events sample_store 1 ''moisture'' ?rl [?a]")
  have tr: "is_trained sample_detector" by (simp add: sample_detector_def)
  have pl: "1 \<in> set (field_plots sample_store)" by (simp add: sample_store_def)
  have len: "10 \<le> length ?rl" unfolding sample_recent by simp
  have fl: "filter is_anomaly [?a, ?b] = [?a]" by simp
  have "detect sample_detector sample_store 1 ''moisture'' =
          (DetectOK \<lparr>total_windows = length [?a, ?b],
                     anomalies_detected = length (filter is_anomaly [?a, ?b]),
                     anomaly_events_created = created, results = [?a, ?b]\<rparr>, st')"
    using tr pl len sample_processed sample_results
  proof (rule detect_succeeds)
    show "create_events sample_store 1 ''moisture'' ?rl (filter is_anomaly [?a, ?b]) = (created, st')"
      unfolding fl by (rule ce)
  qed
  then show ?thesis using ce by simp
qed

text \<open>
  Claim C2, as written, fails. With eleven readings the list fetched by \<^verbatim>\<open>detect\<close> is
  newest first (it is never reversed), window 0 is the one that is flagged, and the
  record is linked to the reading at index 0 of that list, reading 111; the reading at
  index \<open>0 + 10 - 1\<close> is reading 102 (reading 110 in the reversed list).
\<close>

theorem detect_links_index_not_trailing:
  "map reading_id (recent_plot_readings sample_store 1 ''moisture'') =
     [111, 110, 109, 108, 107, 106, 105, 104, 103, 102, 101] \<and>
   map SensorReading.timestamp (recent_plot_readings sample_store 1 ''moisture'') =
     [110, 100, 90, 80, 70, 60, 50, 40, 30, 20, 10] \<and>
   map detection.index (filter is_anomaly
     (results (response_body (fst (detect sample_detector sample_store 1 ''moisture''))))) = [0] \<and>
   map sensor_reading (anomaly_events (snd (detect sample_detector sample_store 1 ''moisture''))) =
     [Some 111] \<and>
   reading_id (recent_plot_readings sample_store 1 ''moisture'' ! (0 + 10 - 1)) = 102 \<and>
   reading_id (rev (recent_plot_readings sample_store 1 ''moisture'') ! (0 + 10 - 1)) = 110"
proof -
  let ?rl = "recent_plot_readings sample_store 1 ''moisture''"
  let ?a = "\<lparr>index = 0, is_anomaly = True, anomaly_score = - 0.6, detection.confidence = 1,
            detection.severity = ''CRITICAL''\<rparr>"
  from sample_detect_run obtain created st' body where
    ce: "create_events sample_store 1 ''moisture'' ?rl [?a] = (created, st')"
    and run: "detect sample_detector sample_store 1 ''moisture'' = (DetectOK body, st')"
    and flagged: "filter is_anomaly (results body) = [?a]"
    by auto
  from create_events_appends [OF ce] obtain evs where
    "anomaly_events st' = anomaly_events sample_store @ evs"
    "map sensor_reading evs =
       map (\<lambda>a. Some (reading_id (if detection.index a < length ?rl
                                    then ?rl ! detection.index a else ?rl ! 0))) [?a]"
    by blast
  then have linked: "map sensor_reading (anomaly_events st') = [Some 111]"
    unfolding sample_recent by (simp add: sample_store_def sample_reading_def)
  have ids: "map reading_id ?rl = [111, 110, 109, 108, 107, 106, 105, 104, 103, 102, 101]"
    and ts: "map SensorReading.timestamp ?rl = [110, 100, 90, 80, 70, 60, 50, 40, 30, 20, 10]"
    and nine: "reading_id (?rl ! (0 + 10 - 1)) = 102"
    and nine': "reading_id (rev ?rl ! (0 + 10 - 1)) = 110"
    unfolding sample_recent by (simp_all add: sample_reading_def)
  show ?thesis
    unfolding run using ids ts nine nine' linked flagged by simp
qed

lemma flagged_in_window_order:
  assumes "\<forall>i<length rs. detection.index (rs ! i) = i"
  shows "sorted_wrt (<) (map detection.index (filter P rs))"
proof -
  have "sorted_wrt (\<lambda>a b. detection.index a < detection.index b) rs"
    using assms by (simp add: sorted_wrt_iff_nth_less)
  then have "sorted_wrt (\<lambda>a b. detection.index a < detection.index b) (filter P rs)"
    by (rule sorted_wrt_filter)
  then show ?thesis by (simp add: sorted_wrt_map)
qed

text \<open>
  Claim C2, as amended. \<^verbatim>\<open>detect\<close> fetches the readings of the plot and sensor type,
  newest first and at most 50 of them, the ones left out being no newer than the ones
  kept; it windows the fetched values in that order, without reversal: window \<open>i\<close> is
  made of the ten values at the indices \<open>i\<close> to \<open>i + 9\<close> of the fetched list, and is
  flagged exactly when the scorer labels its feature vector -1 with a confidence of at
  least 0.999. For every flagged window it creates one anomaly record, in the order of the
  windows, linked to the reading at the window's own index \<open>i\<close> in the fetched list, which
  is the most recent reading of that window. The loop that creates the records falls back
  to the reading at index 0, the most recent one fetched, for an index outside the list.
\<close>

theorem detect_links_window_index:
  "(length (recent_plot_readings st p ty) =
      min 50 (length (filter (\<lambda>r. SensorReading.plot r = p \<and> SensorReading.sensor_type r = ty)
                             (sensor_readings st))) \<and>
    (\<forall>r \<in> set (recent_plot_readings st p ty).
       r \<in> set (sensor_readings st) \<and> SensorReading.plot r = p \<and>
       SensorReading.sensor_type r = ty) \<and>
    (\<forall>r \<in> set (sensor_readings st).
       SensorReading.plot r = p \<and> SensorReading.sensor_type r = ty \<and>
       r \<notin> set (recent_plot_readings st p ty) \<longrightarrow>
         length (recent_plot_readings st p ty) = 50 \<and>
         (\<forall>x \<in> set (recent_plot_readings st p ty).
            SensorReading.timestamp r \<le> SensorReading.timestamp x)) \<and>
    (\<forall>i j. i \<le> j \<and> j < length (recent_plot_readings st p ty) \<longrightarrow>
       SensorReading.timestamp (recent_plot_readings st p ty ! j)
         \<le> SensorReading.timestamp (recent_plot_readings st p ty ! i))) \<and>
   (create_events st0 p0 ty0 rl0 flagged0 = (created0, st0') \<longrightarrow>
      (\<exists>evs. anomaly_events st0' = anomaly_events st0 @ evs \<and>
             map sensor_reading evs =
               map (\<lambda>a. Some (reading_id (if detection.index a < length rl0
                                            then rl0 ! detection.index a else rl0 ! 0))) flagged0)) \<and>
   (detect d st p ty = (DetectOK body, st') \<longrightarrow>
      length (results body) = length (recent_plot_readings st p ty) - 10 + 1 \<and>
      (\<forall>i<length (results body).
         \<exists>features.
           calculate_features
             (take 10 (drop i (map SensorReading.value (recent_plot_readings st p ty))))
             = Inr features \<and>
           detection.index (results body ! i) = i \<and>
           (is_anomaly (results body ! i) \<longleftrightarrow>
              predict_row (model d) features = - 1 \<and>
              min 1 (\<bar>score_row (model d) features\<bar> / 0.5) \<ge> 0.999)) \<and>
      sorted_wrt (<) (map detection.index (filter is_anomaly (results body))) \<and>
      (\<exists>evs. anomaly_events st' = anomaly_events st @ evs \<and>
             anomaly_events_created body = map event_id evs \<and>
             map sensor_reading evs =
               map (\<lambda>a. Some (reading_id (recent_plot_readings st p ty ! detection.index a)))
                   (filter is_anomaly (results body)) \<and>
             map AnomalyEvent.plot evs = map (\<lambda>a. p) (filter is_anomaly (results body)) \<and>
             map anomaly_type evs =
               map (\<lambda>a. ty @ ''_anomaly'') (filter is_anomaly (results body))) \<and>
      (\<forall>a \<in> set (filter is_anomaly (results body)).
         detection.index a + 10 \<le> length (recent_plot_readings st p ty) \<and>
         (\<forall>k. detection.index a \<le> k \<and> k < detection.index a + 10 \<longrightarrow>
              SensorReading.timestamp (recent_plot_readings st p ty ! k)
                \<le> SensorReading.timestamp (recent_plot_readings st p ty ! detection.index a))))"
proof -
  let ?rl = "recent_plot_readings st p ty"
  have desc: "SensorReading.timestamp (?rl ! j) \<le> SensorReading.timestamp (?rl ! i)"
    if "i \<le> j" "j < length ?rl" for i j
    using that unfolding recent_plot_readings_def by (rule newest_first_descending)
  have query: "length ?rl =
      min 50 (length (filter (\<lambda>r. SensorReading.plot r = p \<and> SensorReading.sensor_type r = ty)
                             (sensor_readings st))) \<and>
    (\<forall>r \<in> set ?rl. r \<in> set (sensor_readings st) \<and> SensorReading.plot r = p \<and>
       SensorReading.sensor_type r = ty) \<and>
    (\<forall>r \<in> set (sensor_readings st).
       SensorReading.plot r = p \<and> SensorReading.sensor_type r = ty \<and> r \<notin> set ?rl \<longrightarrow>
         length ?rl = 50 \<and>
         (\<forall>x \<in> set ?rl. SensorReading.timestamp r \<le> SensorReading.timestamp x)) \<and>
    (\<forall>i j. i \<le> j \<and> j < length ?rl \<longrightarrow>
       SensorReading.timestamp (?rl ! j) \<le> SensorReading.timestamp (?rl ! i))"
    using recent_plot_readings_query [of st p ty] desc by blast
  have loop: "\<exists>evs. anomaly_events st0' = anomaly_events st0 @ evs \<and>
             map sensor_reading evs =
               map (\<lambda>a. Some (reading_id (if detection.index a < length rl0
                                            then rl0 ! detection.index a else rl0 ! 0))) flagged0"
    if "create_events st0 p0 ty0 rl0 flagged0 = (created0, st0')"
    using create_events_appends [OF that] by blast
  have view: "length (results body) = length ?rl - 10 + 1 \<and>
      (\<forall>i<length (results body).
         \<exists>features.
           calculate_features (take 10 (drop i (map SensorReading.value ?rl))) = Inr features \<and>
           detection.index (results body ! i) = i \<and>
           (is_anomaly (results body ! i) \<longleftrightarrow>
              predict_row (model d) features = - 1 \<and>
              min 1 (\<bar>score_row (model d) features\<bar> / 0.5) \<ge> 0.999)) \<and>
      sorted_wrt (<) (map detection.index (filter is_anomaly (results body))) \<and>
      (\<exists>evs. anomaly_events st' = anomaly_events st @ evs \<and>
             anomaly_events_created body = map event_id evs \<and>
             map sensor_reading evs =
               map (\<lambda>a. Some (reading_id (?rl ! detection.index a)))
                   (filter is_anomaly (results body)) \<and>
             map AnomalyEvent.plot evs = map (\<lambda>a. p) (filter is_anomaly (results body)) \<and>
             map anomaly_type evs =
               map (\<lambda>a. ty @ ''_anomaly'') (filter is_anomaly (results body))) \<and>
      (\<forall>a \<in> set (filter is_anomaly (results body)).
         detection.index a + 10 \<le> length ?rl \<and>
         (\<forall>k. detection.index a \<le> k \<and> k < detection.index a + 10 \<longrightarrow>
              SensorReading.timestamp (?rl ! k)
                \<le> SensorReading.timestamp (?rl ! detection.index a)))"
    if run: "detect d st p ty = (DetectOK body, st')"
  proof -
    let ?fl = "filter is_anomaly (results body)"
    note ok = detect_ok_cases [OF run]
    have len: "10 \<le> length ?rl" and rlen: "length (results body) = length ?rl - 10 + 1"
      using ok by simp_all
    have rows: "\<exists>features.
           calculate_features (take 10 (drop i (map SensorReading.value ?rl))) = Inr features \<and>
           detection.index (results body ! i) = i \<and>
           (is_anomaly (results body ! i) \<longleftrightarrow>
              predict_row (model d) features = - 1 \<and>
              min 1 (\<bar>score_row (model d) features\<bar> / 0.5) \<ge> 0.999)"
      if "i < length (results body)" for i
    proof -
      from ok that obtain features where
        f: "calculate_features (take 10 (drop i (map SensorReading.value ?rl))) = Inr features"
        and r: "results body ! i = detect_row default_min_confidence
                  (i, predict_row (model d) features, score_row (model d) features)"
        by blast
      show ?thesis
        using f detect_row_flag [of i "predict_row (model d) features" "score_row (model d) features"]
        unfolding r by blast
    qed
    then have idx: "\<forall>i<length (results body). detection.index (results body ! i) = i"
      by blast
    then have order: "sorted_wrt (<) (map detection.index ?fl)"
      by (rule flagged_in_window_order)
    have inside: "detection.index a + 10 \<le> length ?rl" if "a \<in> set ?fl" for a
    proof -
      from that obtain i where "i < length (results body)" "results body ! i = a"
        by (auto simp: in_set_conv_nth)
      then have "detection.index a < length ?rl - 10 + 1" using idx rlen by auto
      then show ?thesis using len by arith
    qed
    have newest: "\<forall>a \<in> set ?fl.
         detection.index a + 10 \<le> length ?rl \<and>
         (\<forall>k. detection.index a \<le> k \<and> k < detection.index a + 10 \<longrightarrow>
              SensorReading.timestamp (?rl ! k) \<le> SensorReading.timestamp (?rl ! detection.index a))"
    proof (intro ballI conjI allI impI)
      fix a assume a: "a \<in> set ?fl"
      show "detection.index a + 10 \<le> length ?rl" using a by (rule inside)
      fix k assume "detection.index a \<le> k \<and> k < detection.index a + 10"
      then show "SensorReading.timestamp (?rl ! k) \<le> SensorReading.timestamp (?rl ! detection.index a)"
        using inside [OF a] by (intro desc) simp_all
    qed
    from ok have ce: "create_events st p ty ?rl ?fl = (anomaly_events_created body, st')" by simp
    from create_events_appends [OF ce] obtain evs where evs:
      "anomaly_events st' = anomaly_events st @ evs" "anomaly_events_created body = map event_id evs"
      "map sensor_reading evs =
         map (\<lambda>a. Some (reading_id (if detection.index a < length ?rl
                                      then ?rl ! detection.index a else ?rl ! 0))) ?fl"
      "map AnomalyEvent.plot evs = map (\<lambda>a. p) ?fl"
      "map anomaly_type evs = map (\<lambda>a. ty @ ''_anomaly'') ?fl"
      by blast
    have "map (\<lambda>a. Some (reading_id (if detection.index a < length ?rl
                                      then ?rl ! detection.index a else ?rl ! 0))) ?fl =
          map (\<lambda>a. Some (reading_id (?rl ! detection.index a))) ?fl"
    proof (rule map_cong [OF refl])
      fix a assume "a \<in> set ?fl"
      from inside [OF this] have "detection.index a < length ?rl" by simp
      then show "Some (reading_id (if detection.index a < length ?rl
                                   then ?rl ! detection.index a else ?rl ! 0)) =
                 Some (reading_id (?rl ! detection.index a))"
        by simp
    qed
    with evs have records: "\<exists>evs. anomaly_events st' = anomaly_events st @ evs \<and>
             anomaly_events_created body = map event_id evs \<and>
             map sensor_reading evs = map (\<lambda>a. Some (reading_id (?rl ! detection.index a))) ?fl \<and>
             map AnomalyEvent.plot evs = map (\<lambda>a. p) ?fl \<and>
             map anomaly_type evs = map (\<lambda>a. ty @ ''_anomaly'') ?fl"
      by auto
    from rlen rows order records newest show ?thesis by blast
  qed
  from query loop view show ?thesis by blast
qed

theorem detect_links_window_index_witness:
  "map sensor_reading (anomaly_events (snd (create_events sample_store 1 ''moisture''
       (recent_plot_readings sample_store 1 ''moisture'')
       [\<lparr>index = 99, is_anomaly = True, anomaly_score = - 0.6, detection.confidence = 1,
         detection.severity = ''CRITICAL''\<rparr>]))) = [Some 111] \<and>
   map sensor_reading (anomaly_events (snd (detect sample_detector sample_store 1 ''moisture''))) =
     [Some (reading_id (recent_plot_readings sample_store 1 ''moisture'' ! 0))] \<and>
   reading_id (recent_plot_readings sample_store 1 ''moisture'' ! 0) = 111 \<and>
   SensorReading.timestamp (recent_plot_readings sample_store 1 ''moisture'' ! 9)
     \<le> SensorReading.timestamp (recent_plot_readings sample_store 1 ''moisture'' ! 0) \<and>
   length (results (response_body (fst (detect sample_detector sample_store 1 ''moisture'')))) = 2"
proof -
  let ?rl = "recent_plot_readings sample_store 1 ''moisture''"
  let ?far = "\<lparr>index = 99, is_anomaly = True, anomaly_score = - 0.6, detection.confidence = 1,
              detection.severity = ''CRITICAL''\<rparr>"
  let ?a = "\<lparr>index = 0, is_anomaly = True, anomaly_score = - 0.6, detection.confidence = 1,
            detection.severity = ''CRITICAL''\<rparr>"
  obtain created0 st0' where ce: "create_events sample_store 1 ''moisture'' ?rl [?far] = (created0, st0')"
    by (cases "create_events sample_store 1 ''moisture'' ?rl [?far]")
  from sample_detect_run obtain body st' where
    run: "detect sample_detector sample_store 1 ''moisture'' = (DetectOK body, st')"
    and flagged: "filter is_anomaly (results body) = [?a]"
    by auto
  note inst = detect_links_window_index
    [where ?st0.0 = sample_store and ?p0.0 = 1 and ?ty0.0 = "''moisture''" and ?rl0.0 = ?rl
       and ?flagged0.0 = "[?far]" and ?created0.0 = created0 and ?st0' = st0'
       and d = sample_detector and st = sample_store and p = 1 and ty = "''moisture''"
       and body = body and st' = st']
  from inst ce obtain evs0 where
    "anomaly_events st0' = anomaly_events sample_store @ evs0"
    "map sensor_reading evs0 =
       map (\<lambda>a. Some (reading_id (if detection.index a < length ?rl
                                    then ?rl ! detection.index a else ?rl ! 0))) [?far]"
    by blast
  then have fallback: "map sensor_reading (anomaly_events st0') = [Some 111]"
    unfolding sample_recent by (simp add: sample_store_def sample_reading_def)
  from inst run obtain evs where
    "anomaly_events st' = anomaly_events sample_store @ evs"
    "map sensor_reading evs =
       map (\<lambda>a. Some (reading_id (?rl ! detection.index a))) (filter is_anomaly (results body))"
    by blast
  then have linked: "map sensor_reading (anomaly_events st') = [Some (reading_id (?rl ! 0))]"
    unfolding flagged by (simp add: sample_store_def)
  from inst have
    "\<forall>i j. i \<le> j \<and> j < length ?rl \<longrightarrow>
       SensorReading.timestamp (?rl ! j) \<le> SensorReading.timestamp (?rl ! i)"
    by blast
  then have "(0::nat) \<le> 9 \<and> 9 < length ?rl \<longrightarrow>
       SensorReading.timestamp (?rl ! 9) \<le> SensorReading.timestamp (?rl ! 0)"
    by blast
  moreover have "9 < length ?rl" unfolding sample_recent by simp
  ultimately have newest:
    "SensorReading.timestamp (?rl ! 9) \<le> SensorReading.timestamp (?rl ! 0)"
    by simp
  from inst run have "length (results body) = length ?rl - 10 + 1" by blast
  then have two: "length (results body) = 2" unfolding sample_recent by simp
  have first: "reading_id (?rl ! 0) = 111"
    unfolding sample_recent by (simp add: sample_reading_def)
  show ?thesis
    unfolding run ce using fallback linked first newest two by simp
qed







end
